theory Spec2Isabelle
  imports Main "HOL-Library.Multiset"
begin

section \<open>Text\<close>

text \<open>
  A Python \<^verbatim>\<open>str\<close> is a sequence of Unicode code points, a \<^verbatim>\<open>bytes\<close> value a
  sequence of numbers below 256. Both are lists of naturals here. String literals of the
  source are written \<open>ustr ''...''\<close>.
\<close>

type_synonym pystr = "nat list"
type_synonym pybytes = "nat list"

definition ustr :: "string \<Rightarrow> pystr" where
  "ustr s = map of_char s"

text \<open>\<^verbatim>\<open>sep.join(parts)\<close>.\<close>

fun join :: "pystr \<Rightarrow> pystr list \<Rightarrow> pystr" where
  "join sep [] = []"
| "join sep [x] = x"
| "join sep (x # y # ys) = x @ sep @ join sep (y # ys)"

text \<open>\<^verbatim>\<open>str(n)\<close> of an integer: its decimal digits, with a minus sign below zero.\<close>

fun str_nat :: "nat \<Rightarrow> pystr" where
  "str_nat n = (if n < 10 then [48 + n] else str_nat (n div 10) @ [48 + n mod 10])"

declare str_nat.simps [simp del]

definition str_int :: "int \<Rightarrow> pystr" where
  "str_int i = (if i < 0 then 45 # str_nat (nat (- i)) else str_nat (nat i))"

text \<open>
  The character predicates of CPython that the program reaches through \<^verbatim>\<open>str.strip\<close>,
  \<^verbatim>\<open>str.lower\<close>, \<^verbatim>\<open>str.upper\<close> and the classes \<^verbatim>\<open>\s\<close>, \<^verbatim>\<open>\d\<close>, \<^verbatim>\<open>\w\<close> of
  \<^verbatim>\<open>re\<close>. \<open>is_space\<close> is the whole Unicode table. \<open>is_decimal\<close>, \<open>is_alnum\<close>,
  \<open>lower_cp\<close> and \<open>upper_cp\<close> are the tables for code points below 256 (ASCII and
  Latin-1); above 255 they treat a code point as a caseless symbol, so for text in other
  scripts the model can differ from Python.
\<close>

definition is_space :: "nat \<Rightarrow> bool" where
  "is_space c = ((9 \<le> c \<and> c \<le> 13) \<or> (28 \<le> c \<and> c \<le> 32) \<or> c = 133 \<or> c = 160 \<or>
     c = 5760 \<or> (8192 \<le> c \<and> c \<le> 8202) \<or> c = 8232 \<or> c = 8233 \<or> c = 8239 \<or>
     c = 8287 \<or> c = 12288)"

definition is_decimal :: "nat \<Rightarrow> bool" where
  "is_decimal c = (48 \<le> c \<and> c \<le> 57)"

definition is_alnum :: "nat \<Rightarrow> bool" where
  "is_alnum c = ((48 \<le> c \<and> c \<le> 57) \<or> (65 \<le> c \<and> c \<le> 90) \<or> (97 \<le> c \<and> c \<le> 122) \<or>
     c = 170 \<or> c = 178 \<or> c = 179 \<or> c = 181 \<or> c = 185 \<or> c = 186 \<or>
     (188 \<le> c \<and> c \<le> 190) \<or> (192 \<le> c \<and> c \<le> 214) \<or> (216 \<le> c \<and> c \<le> 246) \<or>
     (248 \<le> c \<and> c \<le> 255))"

definition is_word :: "nat \<Rightarrow> bool" where
  "is_word c = (is_alnum c \<or> c = 95)"

definition lower_cp :: "nat \<Rightarrow> nat" where
  "lower_cp c = (if (65 \<le> c \<and> c \<le> 90) \<or> (192 \<le> c \<and> c \<le> 222 \<and> c \<noteq> 215) then c + 32 else c)"

definition lower :: "pystr \<Rightarrow> pystr" where
  "lower s = map lower_cp s"

text \<open>Upper case can change the length: sharp s becomes \<^verbatim>\<open>SS\<close>.\<close>

definition upper_cp :: "nat \<Rightarrow> pystr" where
  "upper_cp c =
     (if (97 \<le> c \<and> c \<le> 122) \<or> (224 \<le> c \<and> c \<le> 254 \<and> c \<noteq> 247) then [c - 32]
      else if c = 223 then [83, 83]
      else if c = 181 then [924]
      else if c = 255 then [376]
      else [c])"

definition upper :: "pystr \<Rightarrow> pystr" where
  "upper s = concat (map upper_cp s)"

fun lstrip :: "pystr \<Rightarrow> pystr" where
  "lstrip [] = []"
| "lstrip (c # cs) = (if is_space c then lstrip cs else c # cs)"

definition strip :: "pystr \<Rightarrow> pystr" where
  "strip s = rev (lstrip (rev (lstrip s)))"

fun startswith :: "pystr \<Rightarrow> pystr \<Rightarrow> bool" where
  "startswith s [] = True"
| "startswith [] (p # ps) = False"
| "startswith (c # cs) (p # ps) = (c = p \<and> startswith cs ps)"

definition endswith :: "pystr \<Rightarrow> pystr \<Rightarrow> bool" where
  "endswith s p = startswith (rev s) (rev p)"

text \<open>\<^verbatim>\<open>kw in s\<close> for strings: \<open>kw\<close> occurs in \<open>s\<close> as a contiguous run.\<close>

fun contains :: "pystr \<Rightarrow> pystr \<Rightarrow> bool" where
  "contains [] kw = (kw = [])"
| "contains (c # cs) kw = (startswith (c # cs) kw \<or> contains cs kw)"

text \<open>\<^verbatim>\<open>s.split('\n')\<close>: always at least one piece.\<close>

fun split_nl :: "pystr \<Rightarrow> pystr list" where
  "split_nl [] = [[]]"
| "split_nl (c # cs) =
     (if c = 10 then [] # split_nl cs
      else (case split_nl cs of [] \<Rightarrow> [[c]] | l # ls \<Rightarrow> (c # l) # ls))"

section \<open>Regular expressions (Python's re, as far as the program uses it)\<close>

text \<open>
  The program's patterns are values of \<open>regex\<close>; \<open>m\<close> is a backtracking matcher with
  Python's priorities: alternatives from left to right, repetitions greedy. A position is
  \<open>(mt, ctx, rest)\<close>: the text matched so far and the text before the start of the match,
  both reversed, and the text still to read. \<open>m r p\<close> lists, in the order in which
  Python would try them, the positions at which a match of \<open>r\<close> begun at \<open>p\<close> can end; the
  first one is the match that Python reports.

  \<open>Rep a lo hi\<close> is the greedy \<^verbatim>\<open>a{lo,hi}\<close> (\<open>hi = None\<close>: unbounded). Every repeated
  sub-pattern of this program consumes at least one character per round, so a repetition
  makes at most as many rounds as there are characters left: \<open>rep\<close> recurses on the
  remaining text.
\<close>

datatype cclass = One nat | Range nat nat | CDigit | CWord | CSpace

fun in_class :: "cclass \<Rightarrow> nat \<Rightarrow> bool" where
  "in_class (One d) c = (c = d)"
| "in_class (Range a b) c = (a \<le> c \<and> c \<le> b)"
| "in_class CDigit c = is_decimal c"
| "in_class CWord c = is_word c"
| "in_class CSpace c = is_space c"

datatype regex =
    Lit pystr
  | ILit pystr
  | Class "cclass list"
  | NClass "cclass list"
  | Dot
  | Seq regex regex
  | Alt regex regex
  | Rep regex nat "nat option"
  | Bol
  | Eol
  | WordB
  | LookBehind nat regex
  | LookAhead regex

type_synonym pos = "pystr \<times> pystr \<times> pystr"

definition step_if :: "(nat \<Rightarrow> bool) \<Rightarrow> pos \<Rightarrow> pos list" where
  "step_if P p = (case p of (mt, ctx, rest) \<Rightarrow>
     (case rest of [] \<Rightarrow> [] | c # cs \<Rightarrow> if P c then [(c # mt, ctx, cs)] else []))"

text \<open>A literal, compared through \<open>f\<close> (the identity, or \<open>lower_cp\<close> under IGNORECASE).\<close>

fun lit_at :: "(nat \<Rightarrow> nat) \<Rightarrow> pystr \<Rightarrow> pos \<Rightarrow> pos list" where
  "lit_at f [] p = [p]"
| "lit_at f (d # ds) (mt, ctx, []) = []"
| "lit_at f (d # ds) (mt, ctx, c # cs) = (if f c = f d then lit_at f ds (c # mt, ctx, cs) else [])"

definition before :: "pos \<Rightarrow> pystr" where
  "before p = (case p of (mt, ctx, rest) \<Rightarrow> mt @ ctx)"

definition word_before :: "pos \<Rightarrow> bool" where
  "word_before p = (case p of (mt, ctx, rest) \<Rightarrow>
     (case mt of c # _ \<Rightarrow> is_word c
      | [] \<Rightarrow> (case ctx of c # _ \<Rightarrow> is_word c | [] \<Rightarrow> False)))"

definition word_after :: "pos \<Rightarrow> bool" where
  "word_after p = (case p of (mt, ctx, rest) \<Rightarrow> (case rest of c # _ \<Rightarrow> is_word c | [] \<Rightarrow> False))"

fun rep :: "(pos \<Rightarrow> pos list) \<Rightarrow> pystr \<Rightarrow> nat \<Rightarrow> nat option \<Rightarrow> pos \<Rightarrow> pos list" where
  "rep f [] lo hi p = (if lo = 0 then [p] else [])"
| "rep f (x # fuel) lo hi p =
     (if hi = Some 0 then (if lo = 0 then [p] else [])
      else concat (map (rep f fuel (lo - 1) (map_option (\<lambda>h. h - 1) hi)) (f p))
           @ (if lo = 0 then [p] else []))"

text \<open>
  \<open>Bol\<close> is \<^verbatim>\<open>^\<close> and \<open>Eol\<close> is \<^verbatim>\<open>$\<close> without MULTILINE, \<open>WordB\<close> is \<^verbatim>\<open>\b\<close>,
  \<open>LookBehind n a\<close> is \<^verbatim>\<open>(?<=a)\<close> for a pattern \<open>a\<close> of fixed width \<open>n\<close>, \<open>LookAhead a\<close> is
  \<^verbatim>\<open>(?=a)\<close>.
\<close>

primrec m :: "regex \<Rightarrow> pos \<Rightarrow> pos list" where
  "m (Lit s) p = lit_at (\<lambda>c. c) s p"
| "m (ILit s) p = lit_at lower_cp s p"
| "m (Class cs) p = step_if (\<lambda>c. list_ex (\<lambda>k. in_class k c) cs) p"
| "m (NClass cs) p = step_if (\<lambda>c. \<not> list_ex (\<lambda>k. in_class k c) cs) p"
| "m Dot p = step_if (\<lambda>c. c \<noteq> 10) p"
| "m (Seq a b) p = concat (map (m b) (m a p))"
| "m (Alt a b) p = m a p @ m b p"
| "m (Rep a lo hi) p = rep (m a) (snd (snd p)) lo hi p"
| "m Bol p = (if before p = [] then [p] else [])"
| "m Eol p = (if snd (snd p) = [] \<or> snd (snd p) = [10] then [p] else [])"
| "m WordB p = (if word_before p \<noteq> word_after p then [p] else [])"
| "m (LookBehind n a) p =
     (if n \<le> length (before p) \<and>
         list_ex (\<lambda>q. length (fst q) = n)
           (m a ([], drop n (before p), rev (take n (before p)) @ snd (snd p)))
      then [p] else [])"
| "m (LookAhead a) p = (if m a p = [] then [] else [p])"

text \<open>
  The first match of \<open>r\<close> that starts right here, after the text \<open>ctx\<close> (reversed): the
  matched text and what follows it.
\<close>

definition first_match :: "regex \<Rightarrow> pystr \<Rightarrow> pystr \<Rightarrow> (pystr \<times> pystr) option" where
  "first_match r ctx rest =
     (case m r ([], ctx, rest) of [] \<Rightarrow> None | q # _ \<Rightarrow> Some (rev (fst q), snd (snd q)))"

text \<open>\<^verbatim>\<open>pattern.match(s)\<close>: a match at the start of \<open>s\<close>.\<close>

definition re_match :: "regex \<Rightarrow> pystr \<Rightarrow> (pystr \<times> pystr) option" where
  "re_match r s = first_match r [] s"

text \<open>\<^verbatim>\<open>pattern.search(s)\<close>: the leftmost match; \<^verbatim>\<open>.group()\<close> is the first component,
  \<^verbatim>\<open>s[match.end():]\<close> the second.\<close>

fun search_from :: "regex \<Rightarrow> pystr \<Rightarrow> pystr \<Rightarrow> (pystr \<times> pystr) option" where
  "search_from r ctx [] = first_match r ctx []"
| "search_from r ctx (c # cs) =
     (case first_match r ctx (c # cs) of
        Some x \<Rightarrow> Some x
      | None \<Rightarrow> search_from r (c # ctx) cs)"

definition re_search :: "regex \<Rightarrow> pystr \<Rightarrow> (pystr \<times> pystr) option" where
  "re_search r s = search_from r [] s"

text \<open>
  \<^verbatim>\<open>pattern.sub(repl, s)\<close> and \<^verbatim>\<open>pattern.findall(s)\<close> scan from the left and take, at each
  position not inside the previous match, the first match that starts there. \<open>f ctx rest\<close>
  gives that match together with its replacement; the counter skips the characters that
  the last match covered. No pattern of the program matches the empty string, so what
  Python does with an empty match is not modelled: the scan moves on by one character.
\<close>

fun sub_from :: "(pystr \<Rightarrow> pystr \<Rightarrow> (pystr \<times> pystr) option) \<Rightarrow> pystr \<Rightarrow> pystr \<Rightarrow> nat \<Rightarrow> pystr" where
  "sub_from f ctx [] k = []"
| "sub_from f ctx (c # cs) (Suc k) = sub_from f (c # ctx) cs k"
| "sub_from f ctx (c # cs) 0 =
     (case f ctx (c # cs) of
        None \<Rightarrow> c # sub_from f (c # ctx) cs 0
      | Some (mt, rp) \<Rightarrow>
          (case length mt of
             0 \<Rightarrow> c # sub_from f (c # ctx) cs 0
           | Suc k \<Rightarrow> rp @ sub_from f (c # ctx) cs k))"

definition re_sub :: "regex \<Rightarrow> pystr \<Rightarrow> pystr \<Rightarrow> pystr" where
  "re_sub r rp s =
     sub_from (\<lambda>ctx rest. map_option (\<lambda>x. (fst x, rp)) (first_match r ctx rest)) [] s 0"

fun findall_from :: "regex \<Rightarrow> pystr \<Rightarrow> pystr \<Rightarrow> nat \<Rightarrow> pystr list" where
  "findall_from r ctx [] k = []"
| "findall_from r ctx (c # cs) (Suc k) = findall_from r (c # ctx) cs k"
| "findall_from r ctx (c # cs) 0 =
     (case first_match r ctx (c # cs) of
        None \<Rightarrow> findall_from r (c # ctx) cs 0
      | Some (mt, rest) \<Rightarrow>
          (case length mt of
             0 \<Rightarrow> findall_from r (c # ctx) cs 0
           | Suc k \<Rightarrow> mt # findall_from r (c # ctx) cs k))"

definition re_findall :: "regex \<Rightarrow> pystr \<Rightarrow> pystr list" where
  "re_findall r s = findall_from r [] s 0"

text \<open>Shorthands for writing the patterns down.\<close>

definition lit :: "string \<Rightarrow> regex" where "lit s = Lit (ustr s)"
definition ilit :: "string \<Rightarrow> regex" where "ilit s = ILit (ustr s)"
definition chr :: "char \<Rightarrow> cclass" where "chr c = One (of_char c)"
definition rng :: "char \<Rightarrow> char \<Rightarrow> cclass" where "rng a b = Range (of_char a) (of_char b)"
definition seq :: "regex list \<Rightarrow> regex" where "seq rs = foldr Seq rs (Lit [])"
definition alt :: "regex list \<Rightarrow> regex" where "alt rs = foldr Alt (butlast rs) (last rs)"
definition exactly :: "nat \<Rightarrow> regex \<Rightarrow> regex" where "exactly n r = Rep r n (Some n)"
definition many1 :: "regex \<Rightarrow> regex" where "many1 r = Rep r 1 None"
definition many0 :: "regex \<Rightarrow> regex" where "many0 r = Rep r 0 None"
definition optional :: "regex \<Rightarrow> regex" where "optional r = Rep r 0 (Some 1)"
definition hexd :: regex where
  "hexd = Class [rng CHR ''0'' CHR ''9'', rng CHR ''a'' CHR ''f'', rng CHR ''A'' CHR ''F'']"
definition dig :: regex where "dig = Class [CDigit]"
definition wrd :: regex where "wrd = Class [CWord]"
definition spc :: regex where "spc = Class [CSpace]"

section \<open>Data model (models.py)\<close>

datatype log_level = TRACE | DEBUG | INFO | WARN | ERROR | FATAL | UNKNOWN

text \<open>\<^verbatim>\<open>LogLevel.value\<close>.\<close>

fun level_value :: "log_level \<Rightarrow> int" where
  "level_value TRACE = 0"
| "level_value DEBUG = 1"
| "level_value INFO = 2"
| "level_value WARN = 3"
| "level_value ERROR = 4"
| "level_value FATAL = 5"
| "level_value UNKNOWN = - 1"

text \<open>\<^verbatim>\<open>LogLevel.from_string\<close>.\<close>

definition level_map :: "(pystr \<times> log_level) list" where
  "level_map =
     [(ustr ''TRACE'', TRACE), (ustr ''DEBUG'', DEBUG), (ustr ''INFO'', INFO),
      (ustr ''INFORMATION'', INFO), (ustr ''WARN'', WARN), (ustr ''WARNING'', WARN),
      (ustr ''ERROR'', ERROR), (ustr ''ERR'', ERROR), (ustr ''FATAL'', FATAL),
      (ustr ''CRITICAL'', FATAL), (ustr ''CRIT'', FATAL), (ustr ''SEVERE'', FATAL),
      (ustr ''PANIC'', FATAL)]"

definition from_string :: "pystr \<Rightarrow> log_level" where
  "from_string level_str =
     (if level_str = [] then UNKNOWN
      else (case map_of level_map (strip (upper level_str)) of
              None \<Rightarrow> UNKNOWN
            | Some l \<Rightarrow> l))"

record parsed_log_entry =
  raw_line :: pystr
  line_number :: int
  level :: log_level
  message :: pystr
  timestamp :: "pystr option"
  logger :: "pystr option"
  exception :: "pystr option"
  is_multiline :: bool

text \<open>\<^verbatim>\<open>bool(self.exception)\<close>: present and not the empty string.\<close>

definition has_exception :: "parsed_log_entry \<Rightarrow> bool" where
  "has_exception e = (case exception e of None \<Rightarrow> False | Some s \<Rightarrow> s \<noteq> [])"

definition is_error :: "parsed_log_entry \<Rightarrow> bool" where
  "is_error e = (level e = ERROR \<or> level e = FATAL)"

record error_template =
  template :: pystr
  original_messages :: "pystr list"
  count :: int
  first_occurrence_line :: int

definition add_occurrence :: "error_template \<Rightarrow> pystr \<Rightarrow> int \<Rightarrow> error_template" where
  "add_occurrence t msg ln =
     (let t1 = t\<lparr>count := count t + 1\<rparr>;
          t2 = (if length (original_messages t1) < 3
                then t1\<lparr>original_messages := original_messages t1 @ [msg]\<rparr> else t1)
      in if first_occurrence_line t2 = 0 then t2\<lparr>first_occurrence_line := ln\<rparr> else t2)"

record error_cluster =
  cluster_id :: int
  templates :: "error_template list"
  total_count :: int
  "keywords" :: "pystr list"
  representative_sample :: pystr

section \<open>Ingestion (ingestion.py)\<close>

text \<open>
  \<^verbatim>\<open>bytes.decode('utf-8')\<close>, as CPython does it. \<open>utf8_items\<close> reads the bytes from the left
  and gives \<open>Some cp\<close> for each well-formed sequence and \<open>None\<close> for each maximal ill-formed
  run: a byte that cannot start a sequence, or a lead byte with the continuation bytes that
  were still acceptable. Strict decoding fails if there is any \<open>None\<close>; with
  \<^verbatim>\<open>errors='replace'\<close> each \<open>None\<close> becomes U+FFFD.
\<close>

definition is_cont :: "nat \<Rightarrow> bool" where
  "is_cont b = (128 \<le> b \<and> b \<le> 191)"

text \<open>The range of the second byte, which depends on the lead byte (no overlong forms, no
  surrogates, nothing above U+10FFFF).\<close>

definition second_ok :: "nat \<Rightarrow> nat \<Rightarrow> bool" where
  "second_ok b0 b1 =
     (if b0 = 224 then 160 \<le> b1 \<and> b1 \<le> 191
      else if b0 = 237 then 128 \<le> b1 \<and> b1 \<le> 159
      else if b0 = 240 then 144 \<le> b1 \<and> b1 \<le> 191
      else if b0 = 244 then 128 \<le> b1 \<and> b1 \<le> 143
      else is_cont b1)"

fun utf8_items :: "pybytes \<Rightarrow> nat option list" where
  "utf8_items [] = []"
| "utf8_items (b0 # bs) =
     (if b0 < 128 then Some b0 # utf8_items bs
      else if 194 \<le> b0 \<and> b0 \<le> 223 then
        (case bs of
           [] \<Rightarrow> [None]
         | b1 # r1 \<Rightarrow>
             if is_cont b1 then Some ((b0 - 192) * 64 + (b1 - 128)) # utf8_items r1
             else None # utf8_items bs)
      else if 224 \<le> b0 \<and> b0 \<le> 239 then
        (case bs of
           [] \<Rightarrow> [None]
         | b1 # r1 \<Rightarrow>
             if \<not> second_ok b0 b1 then None # utf8_items bs
             else (case r1 of
                     [] \<Rightarrow> [None]
                   | b2 # r2 \<Rightarrow>
                       if is_cont b2
                       then Some ((b0 - 224) * 4096 + (b1 - 128) * 64 + (b2 - 128)) # utf8_items r2
                       else None # utf8_items r1))
      else if 240 \<le> b0 \<and> b0 \<le> 244 then
        (case bs of
           [] \<Rightarrow> [None]
         | b1 # r1 \<Rightarrow>
             if \<not> second_ok b0 b1 then None # utf8_items bs
             else (case r1 of
                     [] \<Rightarrow> [None]
                   | b2 # r2 \<Rightarrow>
                       if \<not> is_cont b2 then None # utf8_items r1
                       else (case r2 of
                               [] \<Rightarrow> [None]
                             | b3 # r3 \<Rightarrow>
                                 if is_cont b3
                                 then Some ((b0 - 240) * 262144 + (b1 - 128) * 4096
                                            + (b2 - 128) * 64 + (b3 - 128)) # utf8_items r3
                                 else None # utf8_items r2)))
      else None # utf8_items bs)"

definition decode_strict :: "pybytes \<Rightarrow> pystr option" where
  "decode_strict bs =
     (if list_all (\<lambda>x. x \<noteq> None) (utf8_items bs) then Some (map the (utf8_items bs)) else None)"

definition decode_replace :: "pybytes \<Rightarrow> pystr" where
  "decode_replace bs = map (\<lambda>x. case x of None \<Rightarrow> 65533 | Some c \<Rightarrow> c) (utf8_items bs)"

definition CHUNK_SIZE :: nat where
  "CHUNK_SIZE = 64 * 1024"

text \<open>
  The file is the list of bytes not yet read; \<^verbatim>\<open>file.read(CHUNK_SIZE)\<close> takes the next
  \<open>CHUNK_SIZE\<close> of them (fewer at the end), as \<^verbatim>\<open>io.BytesIO\<close> does. \<open>read_plain_loop\<close> is
  the \<^verbatim>\<open>while True\<close> loop of \<^verbatim>\<open>_read_plain_file\<close> with its buffer; the result lists what the
  generator yields.
\<close>

function read_plain_loop :: "pystr \<Rightarrow> pybytes \<Rightarrow> pystr list" where
  "read_plain_loop buffer file =
     (let chunk = take CHUNK_SIZE file in
      if chunk = [] then (if buffer \<noteq> [] then [buffer] else [])
      else
        let decoded = (case decode_strict chunk of Some s \<Rightarrow> s | None \<Rightarrow> decode_replace chunk);
            buffer = buffer @ decoded;
            lines = split_nl buffer
        in butlast lines @ read_plain_loop (last lines) (drop CHUNK_SIZE file))"
  by pat_completeness auto
termination
  by (relation "measure (\<lambda>(buffer, file). length file)") (auto simp: CHUNK_SIZE_def)

declare read_plain_loop.simps [simp del]

definition read_plain_file :: "pybytes \<Rightarrow> pystr list" where
  "read_plain_file file = read_plain_loop [] file"

text \<open>
  What the specification asks of plain ingestion, in its own words: the lines of the UTF-8
  decoding of the whole stream, a replacement character only for invalid byte sequences,
  split on newline, the last piece kept if and only if it is not empty.
\<close>

definition whole_stream_lines :: "pybytes \<Rightarrow> pystr list" where
  "whole_stream_lines file =
     (let lines = split_nl (decode_replace file)
      in butlast lines @ (if last lines \<noteq> [] then [last lines] else []))"

text \<open>
  \<^verbatim>\<open>_read_gzip_file\<close> rests on \<^verbatim>\<open>gzip\<close> and \<^verbatim>\<open>io.TextIOWrapper\<close>, which are not part of the
  program: \<open>gz\<close> stands for what that path yields for a file, \<open>Inl\<close> when it raises.
\<close>

datatype error = IndexError | ValueError | ZeroDivisionError | GzipError

definition read_log_file :: "(pybytes \<Rightarrow> error + pystr list) \<Rightarrow> pybytes \<Rightarrow> pystr \<Rightarrow> error + pystr list" where
  "read_log_file gz file filename =
     (if endswith filename (ustr ''.gz'') then gz file else Inr (read_plain_file file))"

section \<open>Parsing (parsing.py)\<close>

definition TIMESTAMP_PATTERNS :: "regex list" where
  "TIMESTAMP_PATTERNS =
     [seq [exactly 4 dig, lit ''-'', exactly 2 dig, lit ''-'', exactly 2 dig, lit ''T'',
           exactly 2 dig, lit '':'', exactly 2 dig, lit '':'', exactly 2 dig,
           optional (seq [lit ''.'', many1 dig]),
           optional (alt [lit ''Z'', seq [Class [chr CHR ''+'', chr CHR ''-''], exactly 2 dig,
                                           optional (lit '':''), exactly 2 dig]])],
      seq [exactly 4 dig, lit ''-'', exactly 2 dig, lit ''-'', exactly 2 dig, many1 spc,
           exactly 2 dig, lit '':'', exactly 2 dig, lit '':'', exactly 2 dig,
           Class [chr CHR '','', chr CHR ''.''], exactly 3 dig],
      seq [exactly 4 dig, lit ''/'', exactly 2 dig, lit ''/'', exactly 2 dig, many1 spc,
           exactly 2 dig, lit '':'', exactly 2 dig, lit '':'', exactly 2 dig],
      seq [lit ''['', Rep dig 10 (Some 13), lit '']''],
      seq [lit ''['', exactly 4 dig, lit ''-'', exactly 2 dig, lit ''-'', exactly 2 dig, many1 spc,
           exactly 2 dig, lit '':'', exactly 2 dig, lit '':'', exactly 2 dig,
           optional (seq [Class [chr CHR '','', chr CHR ''.''], many1 dig]), lit '']'']]"

definition TIMESTAMP_REGEX :: regex where
  "TIMESTAMP_REGEX = alt TIMESTAMP_PATTERNS"

text \<open>Compiled with IGNORECASE.\<close>

definition LOG_LEVEL_PATTERN :: regex where
  "LOG_LEVEL_PATTERN =
     seq [WordB,
          alt [ilit ''TRACE'', ilit ''DEBUG'', ilit ''INFO'', ilit ''INFORMATION'', ilit ''WARN'',
               ilit ''WARNING'', ilit ''ERROR'', ilit ''ERR'', ilit ''FATAL'', ilit ''CRITICAL'',
               ilit ''CRIT'', ilit ''SEVERE'', ilit ''PANIC''],
          WordB]"

text \<open>The first and the last are compiled with IGNORECASE.\<close>

definition EXCEPTION_PATTERNS :: "regex list" where
  "EXCEPTION_PATTERNS =
     [seq [Bol, many0 spc, ilit ''Traceback (most recent call last):''],
      seq [Bol, many0 spc, lit ''at'', many1 spc,
           many1 (Class [CWord, chr CHR ''.'', chr CHR ''$'']), lit ''('', many1 wrd, lit ''.'',
           many1 wrd, lit '':'', many1 dig, lit '')''],
      seq [Bol, many0 spc, lit ''File '', Lit [34], many0 Dot, Lit [34], lit '', line '', many1 dig],
      seq [Bol, many1 spc, lit ''at'', many1 spc, many0 Dot, lit ''('', many0 Dot, lit '':'',
           many1 dig, lit '':'', many1 dig, lit '')''],
      alt [ilit ''Exception'', ilit ''Error'', ilit ''Throwable'']]"

definition CONTINUATION_PATTERNS :: "regex list" where
  "CONTINUATION_PATTERNS =
     [seq [Bol, many1 spc, lit ''at'', many1 spc],
      seq [Bol, many1 spc, lit ''File'', many1 spc, Lit [34]],
      seq [Bol, many1 spc, many1 wrd, lit ''Error:''],
      seq [Bol, Rep spc 4 None],
      seq [Bol, many1 (Lit [9])],
      seq [Bol, many0 spc, lit ''...'', many0 spc, many1 dig, many1 spc, lit ''more''],
      seq [Bol, many0 spc, lit ''Caused by:'']]"

text \<open>
  \<^verbatim>\<open>json\<close> is a library, not part of the program. A decoded value is a \<open>json\<close>; the
  library is a record of what the program calls: \<open>loads\<close> (\<open>None\<close> when it raises
  \<^verbatim>\<open>JSONDecodeError\<close>; the keys of an object are distinct), \<open>dumps\<close>, Python's \<^verbatim>\<open>str\<close> of
  a value that is not a string, and whether a float is nonzero.
\<close>

typedecl pyfloat

datatype json =
    JNull
  | JBool bool
  | JInt int
  | JFloat pyfloat
  | JStr pystr
  | JList "json list"
  | JDict "(pystr \<times> json) list"

record json_lib =
  loads :: "pystr \<Rightarrow> json option"
  dumps :: "json \<Rightarrow> pystr"
  str_of :: "json \<Rightarrow> pystr"
  nonzero :: "pyfloat \<Rightarrow> bool"

text \<open>Python's truth value of a decoded value.\<close>

fun truthy :: "json_lib \<Rightarrow> json \<Rightarrow> bool" where
  "truthy lib JNull = False"
| "truthy lib (JBool b) = b"
| "truthy lib (JInt i) = (i \<noteq> 0)"
| "truthy lib (JFloat f) = nonzero lib f"
| "truthy lib (JStr s) = (s \<noteq> [])"
| "truthy lib (JList l) = (l \<noteq> [])"
| "truthy lib (JDict d) = (d \<noteq> [])"

text \<open>\<^verbatim>\<open>data.get(k)\<close>: \<^verbatim>\<open>None\<close> for a missing key.\<close>

definition dict_get_json :: "(pystr \<times> json) list \<Rightarrow> string \<Rightarrow> json" where
  "dict_get_json d k = (case map_of d (ustr k) of None \<Rightarrow> JNull | Some v \<Rightarrow> v)"

text \<open>\<^verbatim>\<open>a or b or ... or z\<close>: the first operand that is true, else the last one.\<close>

fun first_truthy :: "json_lib \<Rightarrow> json list \<Rightarrow> json \<Rightarrow> json" where
  "first_truthy lib [] z = z"
| "first_truthy lib (a # as) z = (if truthy lib a then a else first_truthy lib as z)"

definition py_str :: "json_lib \<Rightarrow> json \<Rightarrow> pystr" where
  "py_str lib j = (case j of JStr s \<Rightarrow> s | _ \<Rightarrow> str_of lib j)"

definition str_if_truthy :: "json_lib \<Rightarrow> json \<Rightarrow> pystr option" where
  "str_if_truthy lib j = (if truthy lib j then Some (py_str lib j) else None)"

definition parse_json_line :: "json_lib \<Rightarrow> pystr \<Rightarrow> int \<Rightarrow> parsed_log_entry option" where
  "parse_json_line lib line line_num =
     (case loads lib line of
        None \<Rightarrow> None
      | Some (JDict data) \<Rightarrow>
          (let level_str = first_truthy lib
                 [dict_get_json data ''level'', dict_get_json data ''severity'',
                  dict_get_json data ''log_level'', dict_get_json data ''lvl''] (JStr []);
               msg = first_truthy lib
                 [dict_get_json data ''message'', dict_get_json data ''msg'',
                  dict_get_json data ''text'', dict_get_json data ''@message'']
                 (JStr (str_of lib (JDict data)));
               ts = first_truthy lib
                 [dict_get_json data ''timestamp'', dict_get_json data ''time'',
                  dict_get_json data ''@timestamp'', dict_get_json data ''ts''] JNull;
               lg = first_truthy lib
                 [dict_get_json data ''logger'', dict_get_json data ''name'',
                  dict_get_json data ''source''] JNull;
               exc = first_truthy lib
                 [dict_get_json data ''exception'', dict_get_json data ''error'',
                  dict_get_json data ''stack_trace'', dict_get_json data ''stacktrace'',
                  dict_get_json data ''err''] JNull;
               exc = (case exc of JDict d \<Rightarrow> JStr (dumps lib exc) | _ \<Rightarrow> exc)
           in Some \<lparr>raw_line = line, line_number = line_num,
                    level = from_string (py_str lib level_str),
                    message = py_str lib msg,
                    timestamp = str_if_truthy lib ts,
                    logger = str_if_truthy lib lg,
                    exception = str_if_truthy lib exc,
                    is_multiline = False\<rparr>)
      | Some _ \<Rightarrow> None)"

text \<open>The loop over \<open>EXCEPTION_PATTERNS\<close> stops at the first pattern found in the line.\<close>

definition shows_exception :: "pystr \<Rightarrow> bool" where
  "shows_exception line = list_ex (\<lambda>pattern. re_search pattern line \<noteq> None) EXCEPTION_PATTERNS"

definition parse_plain_line :: "pystr \<Rightarrow> int \<Rightarrow> parsed_log_entry" where
  "parse_plain_line line line_num =
     (let timestamp_match = re_search TIMESTAMP_REGEX line;
          level_match = re_search LOG_LEVEL_PATTERN line;
          lvl = (case level_match of None \<Rightarrow> UNKNOWN | Some (g, after) \<Rightarrow> from_string g);
          msg = (case level_match of
                   None \<Rightarrow> line
                 | Some (g, after) \<Rightarrow>
                     (let parts = strip after in
                      if parts \<noteq> []
                      then re_sub (seq [Bol, many1 (Class [CSpace, chr CHR ''-'', chr CHR '':'',
                                                            chr CHR '']''])]) [] parts
                      else line));
          exc = shows_exception line
      in \<lparr>raw_line = line, line_number = line_num,
          level = (if exc \<and> lvl = UNKNOWN then ERROR else lvl),
          message = msg,
          timestamp = map_option fst timestamp_match,
          logger = None,
          exception = (if exc then Some line else None),
          is_multiline = False\<rparr>)"

definition parse_single_line :: "json_lib \<Rightarrow> pystr \<Rightarrow> int \<Rightarrow> parsed_log_entry" where
  "parse_single_line lib line line_num =
     (let stripped = strip line in
      if startswith stripped (ustr ''{'')
      then (case parse_json_line lib stripped line_num of
              Some entry \<Rightarrow> entry
            | None \<Rightarrow> parse_plain_line line line_num)
      else parse_plain_line line line_num)"

definition is_continuation_line :: "pystr \<Rightarrow> bool" where
  "is_continuation_line line =
     (if list_ex (\<lambda>pattern. re_match pattern line \<noteq> None) CONTINUATION_PATTERNS then True
      else if re_match TIMESTAMP_REGEX (strip line) = None then
        (let stripped = strip line in
         if stripped \<noteq> [] \<and> re_match LOG_LEVEL_PATTERN (take 20 stripped) = None then
           (if (startswith line (ustr '' '') \<or> startswith line [9]) \<and> stripped \<noteq> [] then True
            else False)
         else False)
      else False)"

definition might_have_continuation :: "parsed_log_entry \<Rightarrow> bool" where
  "might_have_continuation entry =
     (if has_exception entry then True
      else if level entry = ERROR \<or> level entry = FATAL then True
      else (let message_lower = lower (message entry)
            in list_ex (\<lambda>kw. contains message_lower kw)
                 [ustr ''exception'', ustr ''error'', ustr ''traceback'', ustr ''stack'',
                  ustr ''caused by'']))"

definition append_to_multiline :: "parsed_log_entry \<Rightarrow> pystr \<Rightarrow> parsed_log_entry" where
  "append_to_multiline pending line =
     (let p = pending\<lparr>is_multiline := True, raw_line := raw_line pending @ [10] @ line\<rparr> in
      if has_exception p then p\<lparr>exception := Some (the (exception p) @ [10] @ line)\<rparr>
      else if shows_exception line then p\<lparr>exception := Some line\<rparr>
      else p)"

text \<open>
  \<open>parse_from\<close> is the loop of \<^verbatim>\<open>parse_lines\<close>: \<open>line_num\<close> is the number of the next line,
  \<open>pending\<close> is \<^verbatim>\<open>self._pending_multiline\<close>, and the result lists the entries in the order
  in which the generator yields them.
\<close>

fun parse_from :: "json_lib \<Rightarrow> int \<Rightarrow> parsed_log_entry option \<Rightarrow> pystr list \<Rightarrow> parsed_log_entry list" where
  "parse_from lib line_num pending [] = (case pending of None \<Rightarrow> [] | Some e \<Rightarrow> [e])"
| "parse_from lib line_num pending (line # lines) =
     (if strip line = [] then parse_from lib (line_num + 1) pending lines
      else if is_continuation_line line \<and> pending \<noteq> None
      then parse_from lib (line_num + 1) (Some (append_to_multiline (the pending) line)) lines
      else (case pending of None \<Rightarrow> [] | Some e \<Rightarrow> [e]) @
           (let entry = parse_single_line lib line line_num in
            if might_have_continuation entry
            then parse_from lib (line_num + 1) (Some entry) lines
            else entry # parse_from lib (line_num + 1) None lines))"

definition parse_lines :: "json_lib \<Rightarrow> pystr list \<Rightarrow> parsed_log_entry list" where
  "parse_lines lib lines = parse_from lib 1 None lines"

section \<open>Normalization (normalization.py)\<close>

definition VARIABLE_PATTERNS :: "(regex \<times> pystr) list" where
  "VARIABLE_PATTERNS =
   [(seq [exactly 8 hexd, lit ''-'', exactly 4 hexd, lit ''-'', exactly 4 hexd, lit ''-'',
          exactly 4 hexd, lit ''-'', exactly 12 hexd], ustr ''<UUID>''),
    (exactly 24 hexd, ustr ''<OBJECT_ID>''),
    (seq [WordB, exactly 40 hexd, WordB], ustr ''<SHA>''),
    (seq [WordB, exactly 64 hexd, WordB], ustr ''<SHA256>''),
    (seq [WordB, exactly 3 (seq [Rep dig 1 (Some 3), lit ''.'']), Rep dig 1 (Some 3), WordB],
     ustr ''<IP>''),
    (seq [WordB, exactly 7 (seq [Rep hexd 1 (Some 4), lit '':'']), Rep hexd 1 (Some 4), WordB],
     ustr ''<IPv6>''),
    (seq [lit ''http'', optional (lit ''s''), lit ''://'',
          many1 (NClass [CSpace, chr CHR ''<'', chr CHR ''>'', One 34, One 39])], ustr ''<URL>''),
    (seq [lit ''/'', many1 (Class [CWord, chr CHR ''-'', chr CHR ''.'', chr CHR ''/'']),
          optional (seq [lit ''.'', many1 wrd])], ustr ''<PATH>''),
    (seq [WordB, many1 (Class [CWord, chr CHR ''.'', chr CHR ''+'', chr CHR ''-'']), lit ''@'',
          many1 (Class [CWord, chr CHR ''.'', chr CHR ''-'']), lit ''.'', many1 wrd, WordB],
     ustr ''<EMAIL>''),
    (seq [exactly 4 dig, lit ''-'', exactly 2 dig, lit ''-'', exactly 2 dig, lit ''T'',
          exactly 2 dig, lit '':'', exactly 2 dig, lit '':'', exactly 2 dig,
          optional (seq [lit ''.'', many1 dig]),
          optional (alt [lit ''Z'', seq [Class [chr CHR ''+'', chr CHR ''-''], exactly 2 dig,
                                          optional (lit '':''), exactly 2 dig]])],
     ustr ''<TIMESTAMP>''),
    (seq [exactly 4 dig, lit ''-'', exactly 2 dig, lit ''-'', exactly 2 dig, many1 spc,
          exactly 2 dig, lit '':'', exactly 2 dig, lit '':'', exactly 2 dig,
          optional (seq [Class [chr CHR '','', chr CHR ''.''], many1 dig])],
     ustr ''<TIMESTAMP>''),
    (seq [exactly 2 dig, lit ''/'', exactly 3 wrd, lit ''/'', exactly 4 dig, lit '':'',
          exactly 2 dig, lit '':'', exactly 2 dig, lit '':'', exactly 2 dig], ustr ''<TIMESTAMP>''),
    (seq [many1 dig, optional (seq [lit ''.'', many1 dig]),
          alt [lit ''ms'', lit ''s'', lit ''m'', lit ''h'', lit ''ns'', Lit [181, 115]]],
     ustr ''<DURATION>''),
    (seq [WordB, lit ''0x'', many1 hexd, WordB], ustr ''<HEX>''),
    (seq [WordB, Rep dig 6 None, WordB], ustr ''<ID>''),
    (seq [LookBehind 5 (seq [lit ''port'', spc]), many1 dig], ustr ''<PORT>''),
    (seq [LookBehind 2 (seq [lit '':'', spc]), many1 dig, LookAhead (alt [spc, Eol, lit '',''])],
     ustr ''<NUM>''),
    (seq [LookBehind 1 (lit ''=''), many1 dig], ustr ''<NUM>''),
    (seq [WordB, Rep (Class [rng CHR ''A'' CHR ''Z'', rng CHR ''a'' CHR ''z'',
                             rng CHR ''0'' CHR ''9'']) 20 None, WordB], ustr ''<REQUEST_ID>'')]"

definition ERROR_KEYWORDS :: "pystr list" where
  "ERROR_KEYWORDS =
     [ustr ''error'', ustr ''exception'', ustr ''fail'', ustr ''fatal'', ustr ''panic'',
      ustr ''crash'', ustr ''traceback'', ustr ''timeout'', ustr ''refused'', ustr ''denied'',
      ustr ''unauthorized'', ustr ''forbidden'', ustr ''not found'', ustr ''null'',
      ustr ''undefined'', ustr ''invalid'', ustr ''cannot'', ustr ''unable'', ustr ''could not'',
      ustr ''failed to'']"

text \<open>
  The pattern \<^verbatim>\<open>(<\w+>)(\s*\1)+\<close> has a back-reference. Group 1 is matched first; for
  each way it can match (there is at most one, since \<^verbatim>\<open>>\<close> is no word character) the rest
  of the pattern is the repetition of white space followed by the very text of group 1.
  The replacement \<^verbatim>\<open>\1\<close> is that text.
\<close>

definition collapse_first :: "pystr \<Rightarrow> pystr \<Rightarrow> (pystr \<times> pystr) option" where
  "collapse_first ctx rest =
     (case concat (map (\<lambda>g. map (\<lambda>q. (rev (fst q), rev (fst g)))
                              (m (many1 (Seq (many0 spc) (Lit (rev (fst g))))) g))
                       (m (seq [lit ''<'', many1 wrd, lit ''>'']) ([], ctx, rest))) of
        [] \<Rightarrow> None
      | x # _ \<Rightarrow> Some x)"

text \<open>\<^verbatim>\<open>re.sub(r'\s+', ' ', s).strip()\<close>, the last step of \<^verbatim>\<open>normalize_message\<close>.\<close>

definition collapse_whitespace :: "pystr \<Rightarrow> pystr" where
  "collapse_whitespace s = strip (re_sub (many1 spc) (ustr '' '') s)"

text \<open>
  The whitespace rule in the words of the specification: every run of whitespace is
  collapsed to a single space. \<open>ws_normal\<close> says that a text is of that shape: its only
  whitespace characters are single spaces, each followed by something that is not
  whitespace or by the end.
\<close>

function squeeze :: "pystr \<Rightarrow> pystr" where
  "squeeze [] = []"
| "squeeze (c # cs) = (if is_space c then 32 # squeeze (dropWhile is_space cs) else c # squeeze cs)"
  by pat_completeness auto
termination
  by (relation "measure length") (auto simp: le_imp_less_Suc length_dropWhile_le)

fun ws_normal :: "pystr \<Rightarrow> bool" where
  "ws_normal [] = True"
| "ws_normal (c # s) =
     ((if is_space c then c = 32 \<and> (s = [] \<or> is_space (hd s) = False) else True) \<and> ws_normal s)"

definition normalize_message :: "pystr \<Rightarrow> pystr" where
  "normalize_message msg =
     (let normalized = fold (\<lambda>(pattern, placeholder) s. re_sub pattern placeholder s)
                            VARIABLE_PATTERNS msg;
          normalized = sub_from collapse_first [] normalized 0
      in collapse_whitespace normalized)"

definition is_high_signal :: "log_level \<Rightarrow> parsed_log_entry \<Rightarrow> bool" where
  "is_high_signal min_level entry =
     (if level entry = ERROR \<or> level entry = FATAL then True
      else if has_exception entry then True
      else if list_ex (\<lambda>kw. contains (lower (message entry)) kw) ERROR_KEYWORDS then True
      else if level entry = WARN \<and> level_value min_level \<le> level_value WARN then True
      else False)"

text \<open>
  A Python \<^verbatim>\<open>dict\<close> keeps its keys in insertion order: it is a list of pairs with distinct
  keys. \<open>map_of\<close> looks a key up; \<open>dict_set\<close> overwrites the value of a key that is there
  and appends a new key at the end.
\<close>

fun dict_set :: "'k \<Rightarrow> 'v \<Rightarrow> ('k \<times> 'v) list \<Rightarrow> ('k \<times> 'v) list" where
  "dict_set k v [] = [(k, v)]"
| "dict_set k v (p # d) = (if fst p = k then (k, v) # d else p # dict_set k v d)"

text \<open>One round of the loop of \<^verbatim>\<open>process_entries\<close>, on the pair of
  \<^verbatim>\<open>high_signal_entries\<close> and \<^verbatim>\<open>self._templates\<close> (here \<open>tmpls\<close>).\<close>

definition process_entry ::
  "log_level \<Rightarrow> parsed_log_entry \<Rightarrow> parsed_log_entry list \<times> (pystr \<times> error_template) list \<Rightarrow>
   parsed_log_entry list \<times> (pystr \<times> error_template) list" where
  "process_entry min_level entry st =
     (case st of (high_signal_entries, tmpls) \<Rightarrow>
      if \<not> is_high_signal min_level entry then (high_signal_entries, tmpls)
      else
        let template_key = normalize_message (message entry);
            tmpls1 =
              (if map_of tmpls template_key = None
               then dict_set template_key
                      \<lparr>template = template_key, original_messages = [], count = 0,
                       first_occurrence_line = line_number entry\<rparr> tmpls
               else tmpls)
        in (high_signal_entries @ [entry],
            (case map_of tmpls1 template_key of
               None \<Rightarrow> tmpls1
             | Some t \<Rightarrow> dict_set template_key
                           (add_occurrence t (message entry) (line_number entry)) tmpls1)))"

definition process_entries ::
  "log_level \<Rightarrow> parsed_log_entry list \<Rightarrow> parsed_log_entry list \<times> (pystr \<times> error_template) list" where
  "process_entries min_level entries = fold (process_entry min_level) entries ([], [])"

section \<open>Clustering (clustering.py)\<close>

definition LOG_STOP_WORDS :: "pystr list" where
  "LOG_STOP_WORDS = map ustr
     [''the'', ''a'', ''an'', ''is'', ''are'', ''was'', ''were'', ''be'', ''been'', ''being'',
      ''have'', ''has'', ''had'', ''do'', ''does'', ''did'', ''will'', ''would'', ''could'',
      ''should'', ''may'', ''might'', ''must'', ''shall'', ''can'', ''need'', ''dare'',
      ''ought'', ''used'', ''to'', ''of'', ''in'', ''for'', ''on'', ''with'', ''at'', ''by'',
      ''from'', ''as'', ''into'', ''through'', ''during'', ''before'', ''after'', ''above'',
      ''below'', ''between'', ''under'', ''again'', ''further'', ''then'', ''once'',
      ''here'', ''there'', ''when'', ''where'', ''why'', ''how'', ''all'', ''each'', ''few'',
      ''more'', ''most'', ''other'', ''some'', ''such'', ''no'', ''nor'', ''not'', ''only'',
      ''own'', ''same'', ''so'', ''than'', ''too'', ''very'', ''just'', ''and'', ''but'',
      ''if'', ''or'', ''because'', ''until'', ''while'', ''this'', ''that'', ''these'',
      ''those'', ''it'', ''its'', ''log'', ''logging'', ''logger'', ''timestamp'', ''time'',
      ''date'', ''level'', ''message'', ''msg'', ''info'', ''debug'', ''warn'', ''warning'']"

text \<open>
  The clusterer's configuration, and the numeric library (scikit-learn and numpy), which is
  not part of the program. \<open>'m\<close> is the type of the TF-IDF matrix. \<open>fit_transform\<close> is the
  vectorizer on the prepared texts, \<open>None\<close> when it raises \<^verbatim>\<open>ValueError\<close>; \<open>fit_predict\<close>
  is \<^verbatim>\<open>MiniBatchKMeans(n_clusters=k, ...).fit_predict\<close>, the list of labels;
  \<open>centroid_keywords\<close> is what \<^verbatim>\<open>_extract_cluster_keywords\<close> computes with numpy from the
  row indices of a cluster.
\<close>

record clusterer =
  max_clusters :: int
  min_samples_per_cluster :: int

record 'm sklearn =
  fit_transform :: "pystr list \<Rightarrow> 'm option"
  fit_predict :: "int \<Rightarrow> 'm \<Rightarrow> int list"
  centroid_keywords :: "nat list \<Rightarrow> 'm \<Rightarrow> pystr list"

definition prepare_text :: "pystr \<Rightarrow> pystr" where
  "prepare_text tmpl =
     (let text = re_sub (seq [lit ''<'', many1 (Class [rng CHR ''A'' CHR ''Z'', chr CHR ''_'']),
                              lit ''>'']) [] tmpl
      in strip (re_sub (many1 spc) (ustr '' '') text))"

text \<open>
  \<^verbatim>\<open>Counter.update(words)\<close> counts in insertion order; \<^verbatim>\<open>most_common(10)\<close> is the first
  ten of the items sorted by count, largest first, items of equal count in insertion order.
\<close>

definition counter_add :: "pystr \<Rightarrow> (pystr \<times> int) list \<Rightarrow> (pystr \<times> int) list" where
  "counter_add w c = dict_set w ((case map_of c w of None \<Rightarrow> 0 | Some n \<Rightarrow> n) + 1) c"

definition most_common :: "nat \<Rightarrow> (pystr \<times> int) list \<Rightarrow> (pystr \<times> int) list" where
  "most_common n c = take n (sort_key (\<lambda>p. - snd p) c)"

definition keyword_tokens :: "error_template \<Rightarrow> pystr list" where
  "keyword_tokens t =
     filter (\<lambda>w. w \<notin> set LOG_STOP_WORDS \<and> length w > 2)
       (re_findall (seq [WordB, Class [rng CHR ''a'' CHR ''z'', rng CHR ''A'' CHR ''Z'', chr CHR ''_''],
                         many0 (Class [rng CHR ''a'' CHR ''z'', rng CHR ''A'' CHR ''Z'',
                                       rng CHR ''0'' CHR ''9'', chr CHR ''_'']), WordB])
                   (lower (template t)))"

definition extract_keywords_simple :: "error_template list \<Rightarrow> pystr list" where
  "extract_keywords_simple tlist =
     map fst (most_common 10 (fold (\<lambda>t c. fold counter_add (keyword_tokens t) c) tlist []))"

text \<open>
  The keyword rule in the words of the specification: frequency counting over the tokens
  of the template texts that are no stop words and longer than 2 characters.
  \<open>first_seen\<close> lists the distinct tokens in the order of their first appearance, and
  \<open>keyword_frequencies\<close> pairs each with the number of its occurrences.
\<close>

definition first_seen :: "'a list \<Rightarrow> 'a list" where
  "first_seen ws = rev (remdups (rev ws))"

definition keyword_frequencies :: "error_template list \<Rightarrow> (pystr \<times> int) list" where
  "keyword_frequencies tlist =
     (let toks = concat (map keyword_tokens tlist)
      in map (\<lambda>w. (w, int (count_list toks w))) (first_seen toks))"

definition create_single_cluster :: "error_template list \<Rightarrow> error_cluster list" where
  "create_single_cluster tlist =
     (if tlist = [] then []
      else [\<lparr>cluster_id = 0, templates = tlist,
             total_count = (\<Sum>t\<leftarrow>tlist. count t),
             keywords = extract_keywords_simple tlist,
             representative_sample = (case tlist of [] \<Rightarrow> [] | t # _ \<Rightarrow> template t)\<rparr>])"

text \<open>\<^verbatim>\<open>max(ts, key=lambda t: t.count)\<close>: the first template with the largest count.\<close>

fun max_by_count :: "error_template \<Rightarrow> error_template list \<Rightarrow> error_template" where
  "max_by_count best [] = best"
| "max_by_count best (t # ts) = max_by_count (if count t > count best then t else best) ts"

text \<open>The first loop of \<^verbatim>\<open>_build_clusters\<close>: \<^verbatim>\<open>clusters_dict\<close>, label by label in the
  order of first appearance, from the labels paired with the templates of the same index.\<close>

definition group_add :: "int \<times> error_template \<Rightarrow> (int \<times> error_template list) list \<Rightarrow> (int \<times> error_template list) list" where
  "group_add lt d =
     dict_set (fst lt) ((case map_of d (fst lt) of None \<Rightarrow> [] | Some ts \<Rightarrow> ts) @ [snd lt]) d"

definition build_clusters ::
  "'m sklearn \<Rightarrow> error_template list \<Rightarrow> int list \<Rightarrow> 'm \<Rightarrow> error + error_cluster list" where
  "build_clusters lib tlist labels tfidf_matrix =
     (if length tlist < length labels then Inl IndexError
      else
        let clusters_dict = fold group_add (zip labels tlist) [];
            clusters = map (\<lambda>(cid, cts).
                \<lparr>cluster_id = cid, templates = cts,
                 total_count = (\<Sum>t\<leftarrow>cts. count t),
                 keywords = centroid_keywords lib
                              (map fst (filter (\<lambda>(i, l). l = cid) (enumerate 0 labels))) tfidf_matrix,
                 representative_sample =
                   (case cts of [] \<Rightarrow> [] | t # ts \<Rightarrow> template (max_by_count t ts))\<rparr>)
              (sort_key fst clusters_dict);
            clusters = sort_key (\<lambda>c. - total_count c) clusters
        in Inr (map (\<lambda>(i, c). c\<lparr>cluster_id := int i\<rparr>) (enumerate 0 clusters)))"

definition cluster_templates ::
  "clusterer \<Rightarrow> 'm sklearn \<Rightarrow> (pystr \<times> error_template) list \<Rightarrow> error + error_cluster list" where
  "cluster_templates self lib tmpls =
     (if tmpls = [] then Inr []
      else
        let template_list = map snd tmpls in
        if int (length template_list) < min_samples_per_cluster self
        then Inr (create_single_cluster template_list)
        else
          (case fit_transform lib (map (\<lambda>t. prepare_text (template t)) template_list) of
             None \<Rightarrow> Inr (create_single_cluster template_list)
           | Some tfidf_matrix \<Rightarrow>
               if min_samples_per_cluster self = 0 then Inl ZeroDivisionError
               else
                 let n_samples = int (length template_list);
                     n_clusters = min (max_clusters self)
                                      (max 1 (n_samples div min_samples_per_cluster self))
                 in if n_clusters \<le> 1 then Inr (create_single_cluster template_list)
                    else build_clusters lib template_list
                           (fit_predict lib n_clusters tfidf_matrix) tfidf_matrix))"

text \<open>\<^verbatim>\<open>format_clusters_for_output\<close>: up to three distinct example messages per cluster.\<close>

record cluster_output =
  out_cluster_id :: int
  out_total_occurrences :: int
  out_unique_patterns :: int
  out_keywords :: "pystr list"
  out_representative_pattern :: pystr
  out_sample_messages :: "pystr list"

definition add_sample :: "pystr \<Rightarrow> pystr list \<Rightarrow> pystr list" where
  "add_sample msg samples = (if msg \<notin> set samples \<and> length samples < 3 then samples @ [msg] else samples)"

definition format_clusters_for_output :: "error_cluster list \<Rightarrow> cluster_output list" where
  "format_clusters_for_output clusters =
     map (\<lambda>c. \<lparr>out_cluster_id = cluster_id c,
               out_total_occurrences = total_count c,
               out_unique_patterns = int (length (templates c)),
               out_keywords = keywords c,
               out_representative_pattern = representative_sample c,
               out_sample_messages =
                 fold add_sample (concat (map original_messages (templates c))) []\<rparr>) clusters"

section \<open>Aggregation (aggregation.py)\<close>

record template_output =
  out_pattern :: pystr
  out_count :: int
  out_first_seen_line :: int
  out_examples :: "pystr list"

definition format_templates_for_output :: "error_template list \<Rightarrow> nat \<Rightarrow> template_output list" where
  "format_templates_for_output tlist top_n =
     map (\<lambda>t. \<lparr>out_pattern = template t, out_count = count t,
               out_first_seen_line = first_occurrence_line t,
               out_examples = take 3 (original_messages t)\<rparr>) (take top_n tlist)"

text \<open>
  \<^verbatim>\<open>AnalysisResult\<close>, without the summary text and the processing time: the first comes
  from the summarization collaborator or its rule-based fallback, the second from the clock.
\<close>

record analysis_result =
  total_lines :: int
  error_lines :: int
  fatal_lines :: int
  warning_lines :: int
  exception_count :: int
  top_templates :: "template_output list"
  clusters :: "cluster_output list"

definition build_analysis_result ::
  "int \<Rightarrow> parsed_log_entry list \<Rightarrow> (pystr \<times> error_template) list \<Rightarrow> error_cluster list \<Rightarrow>
   analysis_result" where
  "build_analysis_result n_lines error_entries tmpls cls =
     \<lparr>total_lines = n_lines,
      error_lines = int (length (filter (\<lambda>e. level e = ERROR) error_entries)),
      fatal_lines = int (length (filter (\<lambda>e. level e = FATAL) error_entries)),
      warning_lines = int (length (filter (\<lambda>e. level e = WARN) error_entries)),
      exception_count = int (length (filter has_exception error_entries)),
      top_templates = format_templates_for_output (sort_key (\<lambda>t. - count t) (map snd tmpls)) 10,
      clusters = format_clusters_for_output cls\<rparr>"

text \<open>The digest for the summarization collaborator: the five lines and the blank line that
  one cluster contributes.\<close>

definition cluster_digest_lines :: "error_cluster \<Rightarrow> pystr list" where
  "cluster_digest_lines c =
     [ustr ''Cluster '' @ str_int (cluster_id c + 1) @ ustr '':'',
      ustr ''  - Occurrences: '' @ str_int (total_count c),
      ustr ''  - Unique patterns: '' @ str_int (int (length (templates c))),
      ustr ''  - Keywords: '' @ join (ustr '', '') (take 5 (keywords c)),
      ustr ''  - Representative pattern: '' @ take 200 (representative_sample c),
      []]"

definition prepare_cluster_summary_for_llm :: "error_cluster list \<Rightarrow> pystr" where
  "prepare_cluster_summary_for_llm cls =
     (if cls = [] then ustr ''No error clusters detected.''
      else join [10] ([ustr ''Error Cluster Summary:'', []] @ concat (map cluster_digest_lines cls)))"

section \<open>The analyzer (analyzer.py)\<close>

text \<open>
  \<open>LogAnalyzer\<close> holds a normalizer with its minimum level and a clusterer made with the
  maximum number of clusters and the default minimum cluster size 2. \<open>analyze\<close> runs the
  pipeline on the bytes of a file; \<open>Inl\<close> is an exception that leaves it.
\<close>

record 'm libraries =
  json_of :: json_lib
  sklearn_of :: "'m sklearn"
  gzip_of :: "pybytes \<Rightarrow> error + pystr list"

definition analyze ::
  "int \<Rightarrow> log_level \<Rightarrow> 'm libraries \<Rightarrow> pybytes \<Rightarrow> pystr \<Rightarrow> error + analysis_result" where
  "analyze max_cl min_level libs file filename =
     (case read_log_file (gzip_of libs) file filename of
        Inl e \<Rightarrow> Inl e
      | Inr lines \<Rightarrow>
          let all_entries = parse_lines (json_of libs) lines;
              n_lines = int (length all_entries);
              (error_entries, tmpls) = process_entries min_level all_entries
          in (case cluster_templates \<lparr>max_clusters = max_cl, min_samples_per_cluster = 2\<rparr>
                     (sklearn_of libs) tmpls of
                Inl e \<Rightarrow> Inl e
              | Inr cls \<Rightarrow> Inr (build_analysis_result n_lines error_entries tmpls cls)))"

section \<open>Example inputs\<close>

text \<open>
  Four templates with a clusterer of the analyzer's settings, and a numeric library that
  vectorizes anything and labels four rows alternately 1 and 0.
\<close>

definition demo_templates :: "(pystr \<times> error_template) list" where
  "demo_templates =
     [(ustr ''Connection to <IP> failed'',
       \<lparr>template = ustr ''Connection to <IP> failed'',
        original_messages = [ustr ''Connection to 10.0.0.7 failed''],
        count = 3, first_occurrence_line = 2\<rparr>),
      (ustr ''Database query failed'',
       \<lparr>template = ustr ''Database query failed'',
        original_messages = [ustr ''Database query failed''],
        count = 1, first_occurrence_line = 5\<rparr>),
      (ustr ''Disk quota exceeded'',
       \<lparr>template = ustr ''Disk quota exceeded'',
        original_messages = [ustr ''Disk quota exceeded''],
        count = 4, first_occurrence_line = 6\<rparr>),
      (ustr ''Cache refresh timeout'',
       \<lparr>template = ustr ''Cache refresh timeout'',
        original_messages = [ustr ''Cache refresh timeout''],
        count = 2, first_occurrence_line = 9\<rparr>)]"

definition demo_clusterer :: clusterer where
  "demo_clusterer = \<lparr>max_clusters = 10, min_samples_per_cluster = 2\<rparr>"

definition demo_sklearn :: "unit sklearn" where
  "demo_sklearn =
     \<lparr>fit_transform = (\<lambda>texts. Some ()),
      fit_predict = (\<lambda>k mat. [1, 0, 1, 0]),
      centroid_keywords = (\<lambda>indices mat. [])\<rparr>"

text \<open>A single template, and a vectorizer that finds no features.\<close>

definition lone_template :: "(pystr \<times> error_template) list" where
  "lone_template =
     [(ustr ''Single error'',
       \<lparr>template = ustr ''Single error'', original_messages = [ustr ''Single error''],
        count = 1, first_occurrence_line = 1\<rparr>)]"

definition featureless_sklearn :: "unit sklearn" where
  "featureless_sklearn =
     \<lparr>fit_transform = (\<lambda>texts. None),
      fit_predict = (\<lambda>k mat. []),
      centroid_keywords = (\<lambda>indices mat. [])\<rparr>"

text \<open>Two templates as \<open>process_entries\<close> makes them from one database error followed by
  three connection errors.\<close>

definition two_templates :: "(pystr \<times> error_template) list" where
  "two_templates =
     [(ustr ''Database query failed'',
       \<lparr>template = ustr ''Database query failed'',
        original_messages = [ustr ''Database query failed''],
        count = 1, first_occurrence_line = 1\<rparr>),
      (ustr ''Connection to <IP> failed'',
       \<lparr>template = ustr ''Connection to <IP> failed'',
        original_messages = [ustr ''Connection to 10.0.0.1 failed'',
                             ustr ''Connection to 10.0.0.2 failed'',
                             ustr ''Connection to 10.0.0.3 failed''],
        count = 3, first_occurrence_line = 2\<rparr>)]"

text \<open>A file of 65537 bytes: 65535 times the letter a, then the two bytes of U+00E9 in
  UTF-8. The first chunk of \<open>CHUNK_SIZE\<close> bytes ends between the two.\<close>

definition split_file :: pybytes where
  "split_file = replicate 65535 97 @ [195, 169]"

text \<open>The five lines of the multiline example.\<close>

definition five_lines :: "pystr list" where
  "five_lines =
     [ustr ''2024-01-15 10:30:45 ERROR Exception occurred'',
      ustr ''Traceback (most recent call last):'',
      ustr ''  File '' @ [34] @ ustr ''app.py'' @ [34] @ ustr '', line 42'',
      ustr ''ValueError: bad input'',
      ustr ''2024-01-15 10:30:46 INFO Normal log'']"

text \<open>A small file of four physical lines: an error, its indented continuation, a blank
  line and an INFO line.\<close>

definition small_file :: pybytes where
  "small_file = ustr ''ERROR boom'' @ [10] @ ustr ''    at x'' @ [10] @ [10] @ ustr ''INFO ok'' @ [10]"

section \<open>Evaluation\<close>

text \<open>The definitions that the simplifier unfolds to run the text functions and the
  matcher on a concrete input.\<close>

lemmas text_eval = ustr_def is_space_def is_decimal_def is_alnum_def is_word_def lower_cp_def
  lower_def upper_cp_def upper_def strip_def endswith_def

lemmas regex_eval = step_if_def before_def word_before_def word_after_def first_match_def
  re_match_def re_search_def re_sub_def re_findall_def lit_def ilit_def chr_def rng_def seq_def
  alt_def exactly_def many1_def many0_def optional_def hexd_def dig_def wrd_def spc_def

lemmas parse_eval = TIMESTAMP_PATTERNS_def TIMESTAMP_REGEX_def LOG_LEVEL_PATTERN_def
  EXCEPTION_PATTERNS_def CONTINUATION_PATTERNS_def shows_exception_def parse_plain_line_def
  parse_single_line_def is_continuation_line_def might_have_continuation_def
  append_to_multiline_def parse_lines_def has_exception_def from_string_def level_map_def

lemmas normalize_eval = VARIABLE_PATTERNS_def ERROR_KEYWORDS_def collapse_first_def
  collapse_whitespace_def normalize_message_def is_high_signal_def process_entry_def
  process_entries_def add_occurrence_def

section \<open>Properties of the digest\<close>

text \<open>
  C9. Two cluster lists that agree, cluster by cluster, on id, total count, number of
  member templates, keywords and representative template get the same digest from
  \<open>prepare_cluster_summary_for_llm\<close>, whatever original example messages (and other
  template fields) they store.
\<close>

theorem digest_independent_of_examples:
  assumes "list_all2 (\<lambda>c d. cluster_id c = cluster_id d \<and> total_count c = total_count d \<and>
             length (templates c) = length (templates d) \<and> keywords c = keywords d \<and>
             representative_sample c = representative_sample d) cs ds"
  shows "prepare_cluster_summary_for_llm cs = prepare_cluster_summary_for_llm ds"
proof -
  from assms have "map cluster_digest_lines cs = map cluster_digest_lines ds"
  proof (induction rule: list_all2_induct)
    case Nil
    show ?case by simp
  next
    case (Cons c cs d ds)
    then show ?case by (simp add: cluster_digest_lines_def)
  qed
  moreover from assms have "(cs = []) = (ds = [])"
    by (cases cs; cases ds) simp_all
  ultimately show ?thesis
    by (simp add: prepare_cluster_summary_for_llm_def)
qed

theorem digest_independent_of_examples_witness:
  "list_all2 (\<lambda>c d. cluster_id c = cluster_id d \<and> total_count c = total_count d \<and>
             length (templates c) = length (templates d) \<and> keywords c = keywords d \<and>
             representative_sample c = representative_sample d)
     [\<lparr>cluster_id = 0,
       templates = [\<lparr>template = ustr ''login failed for <EMAIL>'',
                     original_messages = [ustr ''login failed for alice@example.org''],
                     count = 1, first_occurrence_line = 7\<rparr>],
       total_count = 1, keywords = [ustr ''login''],
       representative_sample = ustr ''login failed for <EMAIL>''\<rparr>]
     [\<lparr>cluster_id = 0,
       templates = [\<lparr>template = ustr ''login failed for <EMAIL>'',
                     original_messages = [ustr ''login failed for bob@example.org''],
                     count = 1, first_occurrence_line = 9\<rparr>],
       total_count = 1, keywords = [ustr ''login''],
       representative_sample = ustr ''login failed for <EMAIL>''\<rparr>]
   \<and> ustr ''login failed for alice@example.org'' \<noteq> ustr ''login failed for bob@example.org''
   \<and> prepare_cluster_summary_for_llm
     [\<lparr>cluster_id = 0,
       templates = [\<lparr>template = ustr ''login failed for <EMAIL>'',
                     original_messages = [ustr ''login failed for alice@example.org''],
                     count = 1, first_occurrence_line = 7\<rparr>],
       total_count = 1, keywords = [ustr ''login''],
       representative_sample = ustr ''login failed for <EMAIL>''\<rparr>]
   = prepare_cluster_summary_for_llm
     [\<lparr>cluster_id = 0,
       templates = [\<lparr>template = ustr ''login failed for <EMAIL>'',
                     original_messages = [ustr ''login failed for bob@example.org''],
                     count = 1, first_occurrence_line = 9\<rparr>],
       total_count = 1, keywords = [ustr ''login''],
       representative_sample = ustr ''login failed for <EMAIL>''\<rparr>]"
proof -
  have neq: "ustr ''login failed for alice@example.org'' \<noteq> ustr ''login failed for bob@example.org''"
    by (simp add: ustr_def)
  show ?thesis
    using neq
      digest_independent_of_examples [of
        "[\<lparr>cluster_id = 0,
           templates = [\<lparr>template = ustr ''login failed for <EMAIL>'',
                         original_messages = [ustr ''login failed for alice@example.org''],
                         count = 1, first_occurrence_line = 7\<rparr>],
           total_count = 1, keywords = [ustr ''login''],
           representative_sample = ustr ''login failed for <EMAIL>''\<rparr>]"
        "[\<lparr>cluster_id = 0,
           templates = [\<lparr>template = ustr ''login failed for <EMAIL>'',
                         original_messages = [ustr ''login failed for bob@example.org''],
                         count = 1, first_occurrence_line = 9\<rparr>],
           total_count = 1, keywords = [ustr ''login''],
           representative_sample = ustr ''login failed for <EMAIL>''\<rparr>]"]
    by simp
qed

section \<open>Properties of the normalizer\<close>

text \<open>Each high-signal entry raises the count of exactly one template by one.\<close>

lemma count_add_occurrence: "count (add_occurrence t msg ln) = count t + 1"
  by (simp add: add_occurrence_def Let_def)

lemma map_of_dict_set: "map_of (dict_set k v d) k = Some v"
  by (induction d) auto

lemma sum_dict_set_new:
  "map_of d k = None \<Longrightarrow>
   (\<Sum>p\<leftarrow>dict_set k v d. count (snd p)) = (\<Sum>p\<leftarrow>d. count (snd p)) + count v"
  by (induction d) (auto split: if_splits)

lemma sum_dict_set_old:
  "map_of d k = Some t \<Longrightarrow>
   (\<Sum>p\<leftarrow>dict_set k v d. count (snd p)) = (\<Sum>p\<leftarrow>d. count (snd p)) - count t + count v"
  by (induction d) (auto split: if_splits)

lemma process_entry_conserves:
  assumes "(\<Sum>p\<leftarrow>snd st. count (snd p)) = int (length (fst st))"
  shows "(\<Sum>p\<leftarrow>snd (process_entry ml e st). count (snd p)) = int (length (fst (process_entry ml e st)))"
proof (cases st)
  case (Pair hs ts)
  show ?thesis
  proof (cases "is_high_signal ml e")
    case False
    with Pair assms show ?thesis by (simp add: process_entry_def)
  next
    case True
    show ?thesis
    proof (cases "map_of ts (normalize_message (message e))")
      case None
      with Pair assms True show ?thesis
        by (simp add: process_entry_def Let_def map_of_dict_set sum_dict_set_new sum_dict_set_old
            count_add_occurrence)
    next
      case (Some t)
      with Pair assms True show ?thesis
        by (simp add: process_entry_def Let_def sum_dict_set_old count_add_occurrence)
    qed
  qed
qed

lemma fold_process_entry_conserves:
  "(\<Sum>p\<leftarrow>snd st. count (snd p)) = int (length (fst st)) \<Longrightarrow>
   (\<Sum>p\<leftarrow>snd (fold (process_entry ml) es st). count (snd p)) =
   int (length (fst (fold (process_entry ml) es st)))"
  by (induction es arbitrary: st) (simp_all add: process_entry_conserves)

text \<open>
  C3. Whatever entries are processed, and whatever the minimum level, the counts of the
  templates that \<open>process_entries\<close> returns add up to the number of high-signal entries that
  it returns.
\<close>

theorem template_counts_conserved:
  "(\<Sum>p\<leftarrow>snd (process_entries min_level entries). count (snd p)) =
   int (length (fst (process_entries min_level entries)))"
  unfolding process_entries_def by (rule fold_process_entry_conserves) simp

section \<open>Properties of the clusterer\<close>

text \<open>Grouping by label moves templates around and loses none.\<close>

lemma dict_set_absent: "map_of d k = None \<Longrightarrow> dict_set k v d = d @ [(k, v)]"
  by (induction d) (auto split: if_splits)

lemma mset_dict_set_present:
  "map_of d k = Some ts \<Longrightarrow>
   mset (concat (map snd (dict_set k (ts @ [t]) d))) = add_mset t (mset (concat (map snd d)))"
  by (induction d) (auto split: if_splits)

lemma mset_group_add:
  "mset (concat (map snd (group_add lt d))) = add_mset (snd lt) (mset (concat (map snd d)))"
  by (cases "map_of d (fst lt)") (simp_all add: group_add_def dict_set_absent mset_dict_set_present)

lemma mset_fold_group_add:
  "mset (concat (map snd (fold group_add xs d))) = mset (map snd xs) + mset (concat (map snd d))"
  by (induction xs arbitrary: d) (simp_all add: mset_group_add)

lemma mset_concat_perm: "mset xss = mset yss \<Longrightarrow> mset (concat xss) = mset (concat yss)"
  by (metis mset_concat mset_map sum_mset_sum_list)

lemma map_renumber:
  assumes "\<And>c i. f (c\<lparr>cluster_id := i\<rparr>) = f c"
  shows "map f (map (\<lambda>(i, c). c\<lparr>cluster_id := int i\<rparr>) (enumerate n xs)) = map f xs"
proof -
  have "map f (map (\<lambda>(i, c). c\<lparr>cluster_id := int i\<rparr>) (enumerate n xs)) = map (f \<circ> snd) (enumerate n xs)"
    by (simp add: assms case_prod_beta comp_def)
  also have "\<dots> = map f (map snd (enumerate n xs))" by (simp only: map_map)
  also have "\<dots> = map f xs" by (simp only: map_snd_enumerate)
  finally show ?thesis .
qed

lemma ids_renumber:
  "map cluster_id (map (\<lambda>(i, c). c\<lparr>cluster_id := int i\<rparr>) (enumerate 0 xs)) = map int [0..<length xs]"
proof -
  have "map cluster_id (map (\<lambda>(i, c). c\<lparr>cluster_id := int i\<rparr>) (enumerate 0 xs)) = map (int \<circ> fst) (enumerate 0 xs)"
    by (simp add: case_prod_beta comp_def)
  also have "\<dots> = map int (map fst (enumerate 0 xs))" by (simp only: map_map)
  also have "\<dots> = map int [0..<length xs]" by (simp only: map_fst_enumerate add_0)
  finally show ?thesis .
qed

lemma build_clusters_result:
  assumes "length labels \<le> length tlist"
  shows "\<exists>cs. build_clusters lib tlist labels mat = Inr cs \<and>
           mset (concat (map templates cs)) = mset (take (length labels) tlist) \<and>
           sorted (map (\<lambda>c. - total_count c) cs) \<and>
           map cluster_id cs = map int [0..<length cs] \<and>
           list_all (\<lambda>c. total_count c = (\<Sum>t\<leftarrow>templates c. count t)) cs"
proof -
  define G where "G = sort_key fst (fold group_add (zip labels tlist) [])"
  define mk where "mk = (\<lambda>(cid, cts).
                \<lparr>cluster_id = cid, templates = cts,
                 total_count = (\<Sum>t\<leftarrow>cts. count t),
                 keywords = centroid_keywords lib
                              (map fst (filter (\<lambda>(i, l). l = cid) (enumerate 0 labels))) mat,
                 representative_sample =
                   (case cts of [] \<Rightarrow> [] | t # ts \<Rightarrow> template (max_by_count t ts))\<rparr>)"
  define S where "S = sort_key (\<lambda>c. - total_count c) (map mk G)"
  define R where "R = map (\<lambda>(i, c). c\<lparr>cluster_id := int i\<rparr>) (enumerate 0 S)"
  have res: "build_clusters lib tlist labels mat = Inr R"
    using assms by (simp add: build_clusters_def Let_def G_def mk_def S_def R_def)
  have tR: "map templates R = map templates S"
    unfolding R_def by (rule map_renumber) simp
  have cR: "map total_count R = map total_count S"
    unfolding R_def by (rule map_renumber) simp
  have "mset S = mset (map mk G)"
    by (simp add: S_def)
  then have "mset (map templates S) = mset (map templates (map mk G))"
    by (metis mset_map)
  also have "map templates (map mk G) = map snd G"
    by (simp add: mk_def case_prod_beta)
  also have "mset (map snd G) = mset (map snd (fold group_add (zip labels tlist) []))"
    by (simp add: G_def)
  finally have "mset (concat (map templates R)) = mset (concat (map snd (fold group_add (zip labels tlist) [])))"
    using tR by (simp add: mset_concat_perm)
  also have "\<dots> = mset (map snd (zip labels tlist))"
    by (simp add: mset_fold_group_add)
  also have "map snd (zip labels tlist) = take (length labels) tlist"
    using assms by (simp add: map_snd_zip_take min_def)
  finally have part: "mset (concat (map templates R)) = mset (take (length labels) tlist)" .
  have "sorted (map (\<lambda>c. - total_count c) S)"
    unfolding S_def by (rule sorted_sort_key)
  moreover have "map (\<lambda>c. - total_count c) R = map (\<lambda>c. - total_count c) S"
    unfolding R_def by (rule map_renumber) simp
  ultimately have srt: "sorted (map (\<lambda>c. - total_count c) R)" by simp
  have ids: "map cluster_id R = map int [0..<length R]"
    unfolding R_def by (simp only: ids_renumber length_map length_enumerate)
  have "list_all (\<lambda>c. total_count c = (\<Sum>t\<leftarrow>templates c. count t)) (map mk G)"
    by (simp add: list_all_iff mk_def case_prod_beta)
  then have "list_all (\<lambda>c. total_count c = (\<Sum>t\<leftarrow>templates c. count t)) S"
    by (simp add: list_all_iff S_def)
  then have tot: "list_all (\<lambda>c. total_count c = (\<Sum>t\<leftarrow>templates c. count t)) R"
    by (auto simp: list_all_iff R_def enumerate_eq_zip dest!: set_zip_rightD)
  from res part srt ids tot show ?thesis by blast
qed


lemma single_cluster_result:
  assumes "tlist \<noteq> []"
  shows "\<exists>c. create_single_cluster tlist = [c] \<and> templates c = tlist \<and> cluster_id c = 0 \<and>
             total_count c = (\<Sum>t\<leftarrow>tlist. count t)"
  using assms by (simp add: create_single_cluster_def)

lemma cluster_templates_result:
  assumes ne: "tmpls \<noteq> []"
      and nz: "min_samples_per_cluster self \<noteq> 0"
      and len: "\<forall>k mat. length (fit_predict lib k mat) = length tmpls"
  shows "\<exists>cs. cluster_templates self lib tmpls = Inr cs \<and>
           mset (concat (map templates cs)) = mset (map snd tmpls) \<and>
           sorted (map (\<lambda>c. - total_count c) cs) \<and>
           map cluster_id cs = map int [0..<length cs] \<and>
           list_all (\<lambda>c. total_count c = (\<Sum>t\<leftarrow>templates c. count t)) cs"
proof -
  let ?tl = "map snd tmpls"
  let ?P = "\<lambda>cs. mset (concat (map templates cs)) = mset ?tl \<and>
           sorted (map (\<lambda>c. - total_count c) cs) \<and>
           map cluster_id cs = map int [0..<length cs] \<and>
           list_all (\<lambda>c. total_count c = (\<Sum>t\<leftarrow>templates c. count t)) cs"
  from ne have "?tl \<noteq> []" by simp
  from single_cluster_result [OF this] obtain c where
    c: "create_single_cluster ?tl = [c]" "templates c = ?tl" "cluster_id c = 0"
       "total_count c = (\<Sum>t\<leftarrow>?tl. count t)" by blast
  then have single: "?P (create_single_cluster ?tl)" by simp
  show ?thesis
  proof (cases "int (length ?tl) < min_samples_per_cluster self")
    case True
    with ne have "cluster_templates self lib tmpls = Inr (create_single_cluster ?tl)"
      by (simp add: cluster_templates_def)
    with single show ?thesis by blast
  next
    case small: False
    show ?thesis
    proof (cases "fit_transform lib (map (\<lambda>t. prepare_text (template t)) ?tl)")
      case None
      with ne small have "cluster_templates self lib tmpls = Inr (create_single_cluster ?tl)"
        by (simp add: cluster_templates_def)
      with single show ?thesis by blast
    next
      case (Some mat)
      let ?k = "min (max_clusters self) (max 1 (int (length ?tl) div min_samples_per_cluster self))"
      have unf: "cluster_templates self lib tmpls =
          (if ?k \<le> 1 then Inr (create_single_cluster ?tl)
           else build_clusters lib ?tl (fit_predict lib ?k mat) mat)"
        by (simp only: cluster_templates_def Let_def ne small Some nz if_False option.case)
      show ?thesis
      proof (cases "?k \<le> 1")
        case True
        with unf have "cluster_templates self lib tmpls = Inr (create_single_cluster ?tl)"
          by (simp only: if_True)
        with single show ?thesis by blast
      next
        case False
        with unf have eq: "cluster_templates self lib tmpls =
            build_clusters lib ?tl (fit_predict lib ?k mat) mat"
          by (simp only: if_False)
        from len have l: "length (fit_predict lib ?k mat) = length ?tl" by simp
        then have "length (fit_predict lib ?k mat) \<le> length ?tl" by simp
        from build_clusters_result [OF this, of lib mat] l eq show ?thesis by simp
      qed
    qed
  qed
qed


lemma exactly_one_index:
  "distinct (concat xss) \<Longrightarrow> x \<in> set (concat xss) \<Longrightarrow> \<exists>!i. i < length xss \<and> x \<in> set (xss ! i)"
proof (induction xss)
  case Nil
  then show ?case by simp
next
  case (Cons ys xss)
  from Cons.prems have d: "distinct ys" "distinct (concat xss)" "set ys \<inter> set (concat xss) = {}"
    by auto
  show ?case
  proof (cases "x \<in> set ys")
    case True
    have "\<And>j. j < length (ys # xss) \<Longrightarrow> x \<in> set ((ys # xss) ! j) \<Longrightarrow> j = 0"
    proof -
      fix j assume j: "j < length (ys # xss)" "x \<in> set ((ys # xss) ! j)"
      show "j = 0"
      proof (cases j)
        case 0
        then show ?thesis .
      next
        case (Suc k)
        with j have "k < length xss" "x \<in> set (xss ! k)" by simp_all
        then have "x \<in> set (concat xss)" by auto
        with True d(3) show ?thesis by blast
      qed
    qed
    with True show ?thesis by (intro ex1I [of _ 0]) auto
  next
    case False
    with Cons.prems have "x \<in> set (concat xss)" by simp
    from Cons.IH [OF d(2) this] obtain i where
      i: "i < length xss" "x \<in> set (xss ! i)" "\<And>j. j < length xss \<Longrightarrow> x \<in> set (xss ! j) \<Longrightarrow> j = i"
      by blast
    have "\<And>j. j < length (ys # xss) \<Longrightarrow> x \<in> set ((ys # xss) ! j) \<Longrightarrow> j = Suc i"
    proof -
      fix j assume j: "j < length (ys # xss)" "x \<in> set ((ys # xss) ! j)"
      show "j = Suc i"
      proof (cases j)
        case 0
        with j False show ?thesis by simp
      next
        case (Suc k)
        with j have "k < length xss" "x \<in> set (xss ! k)" by simp_all
        with i(3) Suc show ?thesis by simp
      qed
    qed
    with i(1,2) show ?thesis by (intro ex1I [of _ "Suc i"]) auto
  qed
qed

text \<open>
  C4. For a non-empty template map, a clusterer whose minimum cluster size is not zero, and
  a numeric library that returns one label per template, \<open>cluster_templates\<close> returns
  clusters whose member lists together hold every input template exactly once: as
  multisets, the members are the input templates; their union is the input set; and when
  the templates are pairwise different (as the values of a template map are), each belongs
  to the member list of exactly one cluster.
\<close>

theorem cluster_partition:
  assumes "tmpls \<noteq> []"
      and "min_samples_per_cluster self \<noteq> 0"
      and "\<forall>k mat. length (fit_predict lib k mat) = length tmpls"
  shows "\<exists>cs. cluster_templates self lib tmpls = Inr cs \<and>
           mset (concat (map templates cs)) = mset (map snd tmpls) \<and>
           (\<Union>c\<in>set cs. set (templates c)) = set (map snd tmpls) \<and>
           (distinct (map snd tmpls) \<longrightarrow>
              (\<forall>t\<in>set (map snd tmpls). \<exists>!i. i < length cs \<and> t \<in> set (templates (cs ! i))))"
proof -
  from cluster_templates_result [OF assms] obtain cs where
    cs: "cluster_templates self lib tmpls = Inr cs"
        "mset (concat (map templates cs)) = mset (map snd tmpls)" by blast
  from cs(2) have s: "set (concat (map templates cs)) = set (map snd tmpls)"
    by (rule mset_eq_setD)
  then have u: "(\<Union>c\<in>set cs. set (templates c)) = set (map snd tmpls)" by simp
  have "\<exists>!i. i < length cs \<and> t \<in> set (templates (cs ! i))"
    if dist: "distinct (map snd tmpls)" and t: "t \<in> set (map snd tmpls)" for t
  proof -
    from cs(2) dist have "distinct (concat (map templates cs))"
      by (metis mset_eq_imp_distinct_iff)
    moreover from s t have "t \<in> set (concat (map templates cs))" by simp
    ultimately have "\<exists>!i. i < length (map templates cs) \<and> t \<in> set (map templates cs ! i)"
      by (rule exactly_one_index)
    then show ?thesis by (auto cong: conj_cong)
  qed
  with cs u show ?thesis by blast
qed

theorem cluster_partition_witness:
  "demo_templates \<noteq> [] \<and> min_samples_per_cluster demo_clusterer \<noteq> 0 \<and>
   (\<forall>k mat. length (fit_predict demo_sklearn k mat) = length demo_templates) \<and>
   (\<exists>cs. cluster_templates demo_clusterer demo_sklearn demo_templates = Inr cs \<and>
         mset (concat (map templates cs)) = mset (map snd demo_templates) \<and>
         (\<Union>c\<in>set cs. set (templates c)) = set (map snd demo_templates))"
proof -
  have h1: "demo_templates \<noteq> []" by (simp add: demo_templates_def)
  have h2: "min_samples_per_cluster demo_clusterer \<noteq> 0" by (simp add: demo_clusterer_def)
  have h3: "\<forall>k mat. length (fit_predict demo_sklearn k mat) = length demo_templates"
    by (simp add: demo_sklearn_def demo_templates_def)
  from cluster_partition [OF h1 h2 h3] h1 h2 h3 show ?thesis by blast
qed

text \<open>
  C5. Under the same conditions the clusters that \<open>cluster_templates\<close> returns are in
  descending order of total count, the total count of a cluster is the sum of the counts
  of its members, and the ids are 0, 1, ..., k-1 in list order; so the first cluster has
  id 0 and no cluster has a larger total count.
\<close>

theorem cluster_ranking:
  assumes "tmpls \<noteq> []"
      and "min_samples_per_cluster self \<noteq> 0"
      and "\<forall>k mat. length (fit_predict lib k mat) = length tmpls"
  shows "\<exists>cs. cluster_templates self lib tmpls = Inr cs \<and> cs \<noteq> [] \<and>
           sorted_wrt (\<lambda>a b. total_count a \<ge> total_count b) cs \<and>
           map cluster_id cs = map int [0..<length cs] \<and>
           list_all (\<lambda>c. total_count c = (\<Sum>t\<leftarrow>templates c. count t)) cs \<and>
           cluster_id (hd cs) = 0 \<and>
           list_all (\<lambda>c. total_count c \<le> total_count (hd cs)) cs"
proof -
  from cluster_templates_result [OF assms] obtain cs where
    cs: "cluster_templates self lib tmpls = Inr cs"
        "mset (concat (map templates cs)) = mset (map snd tmpls)"
        "sorted (map (\<lambda>c. - total_count c) cs)"
        "map cluster_id cs = map int [0..<length cs]"
        "list_all (\<lambda>c. total_count c = (\<Sum>t\<leftarrow>templates c. count t)) cs" by blast
  from cs(2) assms(1) have ne: "cs \<noteq> []" by auto
  from cs(3) have srt: "sorted_wrt (\<lambda>a b. total_count a \<ge> total_count b) cs"
    by (simp add: sorted_map)
  from ne obtain c rest where cr: "cs = c # rest" by (cases cs) auto
  with cs(4) have id0: "cluster_id (hd cs) = 0"
    by (simp add: upt_rec)
  from srt cr have top: "list_all (\<lambda>c. total_count c \<le> total_count (hd cs)) cs"
    by (auto simp: list_all_iff)
  from cs(1) ne srt cs(4) cs(5) id0 top show ?thesis by blast
qed


theorem cluster_ranking_witness:
  "demo_templates \<noteq> [] \<and> min_samples_per_cluster demo_clusterer \<noteq> 0 \<and>
   (\<forall>k mat. length (fit_predict demo_sklearn k mat) = length demo_templates) \<and>
   (\<exists>cs. cluster_templates demo_clusterer demo_sklearn demo_templates = Inr cs \<and> cs \<noteq> [] \<and>
         sorted_wrt (\<lambda>a b. total_count a \<ge> total_count b) cs \<and>
         map cluster_id cs = map int [0..<length cs] \<and>
         cluster_id (hd cs) = 0)"
proof -
  have h1: "demo_templates \<noteq> []" by (simp add: demo_templates_def)
  have h2: "min_samples_per_cluster demo_clusterer \<noteq> 0" by (simp add: demo_clusterer_def)
  have h3: "\<forall>k mat. length (fit_predict demo_sklearn k mat) = length demo_templates"
    by (simp add: demo_sklearn_def demo_templates_def)
  from cluster_ranking [OF h1 h2 h3] h1 h2 h3 show ?thesis by blast
qed

section \<open>Degenerate inputs of the clusterer\<close>

text \<open>The counter built word by word holds, in the order of first appearance, each word
  with the number of its occurrences.\<close>

lemma first_seen_snoc:
  "first_seen (ws @ [w]) = (if w \<in> set ws then first_seen ws else first_seen ws @ [w])"
  by (simp add: first_seen_def)

lemma set_first_seen: "set (first_seen ws) = set ws"
  by (simp add: first_seen_def)

lemma distinct_first_seen: "distinct (first_seen ws)"
  by (simp add: first_seen_def)

lemma map_of_tabulate: "map_of (map (\<lambda>v. (v, g v)) xs) w = (if w \<in> set xs then Some (g w) else None)"
  by (induction xs) auto

lemma dict_set_tabulate_present:
  "w \<in> set xs \<Longrightarrow> distinct xs \<Longrightarrow>
   dict_set w n (map (\<lambda>v. (v, g v)) xs) = map (\<lambda>v. (v, if v = w then n else g v)) xs"
  by (induction xs) auto

lemma counter_fold:
  "fold counter_add ws [] = map (\<lambda>w. (w, int (count_list ws w))) (first_seen ws)"
proof (induction ws rule: rev_induct)
  case Nil
  show ?case by (simp add: first_seen_def)
next
  case (snoc w ws)
  let ?g = "\<lambda>v. int (count_list ws v)"
  have step: "fold counter_add (ws @ [w]) [] = counter_add w (map (\<lambda>v. (v, ?g v)) (first_seen ws))"
    using snoc.IH by simp
  let ?h = "\<lambda>v. (v, int (count_list (ws @ [w]) v))"
  show ?case
  proof (cases "w \<in> set ws")
    case True
    then have "counter_add w (map (\<lambda>v. (v, ?g v)) (first_seen ws)) =
               map (\<lambda>v. (v, if v = w then ?g w + 1 else ?g v)) (first_seen ws)"
      by (simp add: counter_add_def map_of_tabulate set_first_seen dict_set_tabulate_present
          distinct_first_seen)
    also have "\<dots> = map ?h (first_seen ws)"
      by (rule map_cong) auto
    also have "\<dots> = map ?h (first_seen (ws @ [w]))"
      using True by (simp only: first_seen_snoc if_True)
    finally show ?thesis using step by (simp only:)
  next
    case False
    then have "counter_add w (map (\<lambda>v. (v, ?g v)) (first_seen ws)) =
               map (\<lambda>v. (v, ?g v)) (first_seen ws) @ [(w, 1)]"
      by (simp add: counter_add_def map_of_tabulate set_first_seen dict_set_absent)
    moreover have "map (\<lambda>v. (v, ?g v)) (first_seen ws) = map ?h (first_seen ws)"
      using False by (intro map_cong) (auto simp: set_first_seen)
    moreover have "(w, 1) = ?h w"
      using False by simp
    ultimately have "counter_add w (map (\<lambda>v. (v, ?g v)) (first_seen ws)) =
               map ?h (first_seen ws) @ [?h w]"
      by (simp only:)
    also have "\<dots> = map ?h (first_seen ws @ [w])"
      by simp
    also have "\<dots> = map ?h (first_seen (ws @ [w]))"
      using False by (simp only: first_seen_snoc if_False)
    finally show ?thesis using step by (simp only:)
  qed
qed

lemma fold_fold_concat: "fold (\<lambda>t c. fold f (g t) c) ts c = fold f (concat (map g ts)) c"
  by (induction ts arbitrary: c) simp_all

lemma extract_keywords_simple_frequencies:
  "extract_keywords_simple tlist = map fst (most_common 10 (keyword_frequencies tlist))"
  by (simp add: extract_keywords_simple_def keyword_frequencies_def fold_fold_concat counter_fold Let_def)


lemma keyword_tokens_filtered:
  "w \<in> set (keyword_tokens t) \<Longrightarrow> w \<notin> set LOG_STOP_WORDS \<and> 2 < length w"
  by (simp add: keyword_tokens_def)

lemma set_most_common: "set (most_common n c) \<subseteq> set c"
  by (auto simp: most_common_def dest: in_set_takeD)

lemma length_most_common: "length (most_common n c) \<le> n"
  by (simp add: most_common_def)

lemma keys_keyword_frequencies:
  "fst ` set (keyword_frequencies tlist) = (\<Union>t\<in>set tlist. set (keyword_tokens t))"
  by (auto simp: keyword_frequencies_def Let_def set_first_seen image_image)

text \<open>
  C7. Degenerate inputs give a result and no error. An empty template map gives the empty
  cluster list. A non-empty map with fewer templates than the minimum cluster size, or one
  for whose texts the vectorizer finds no features, gives exactly one cluster: id 0, all
  templates as members, their counts added up. Its keywords come from frequency counting:
  they are the first components of the ten most frequent entries of
  \<open>keyword_frequencies\<close>; there are at most ten, and each is a token of a member
  template that is no stop word and longer than 2 characters.
\<close>

theorem degenerate_clustering:
  "cluster_templates self lib [] = Inr [] \<and>
   (tmpls \<noteq> [] \<and>
    (int (length tmpls) < min_samples_per_cluster self \<or>
     fit_transform lib (map (\<lambda>t. prepare_text (template t)) (map snd tmpls)) = None) \<longrightarrow>
    cluster_templates self lib tmpls =
      Inr [\<lparr>cluster_id = 0, templates = map snd tmpls,
            total_count = (\<Sum>t\<leftarrow>map snd tmpls. count t),
            keywords = map fst (most_common 10 (keyword_frequencies (map snd tmpls))),
            representative_sample = template (snd (hd tmpls))\<rparr>]) \<and>
   length (most_common 10 (keyword_frequencies (map snd tmpls))) \<le> 10 \<and>
   (\<forall>w\<in>set (map fst (most_common 10 (keyword_frequencies (map snd tmpls)))).
      w \<notin> set LOG_STOP_WORDS \<and> 2 < length w \<and>
      (\<exists>t\<in>set (map snd tmpls). w \<in> set (keyword_tokens t)))"
proof (intro conjI impI ballI)
  show "cluster_templates self lib [] = Inr []"
    by (simp add: cluster_templates_def)
next
  assume a: "tmpls \<noteq> [] \<and>
    (int (length tmpls) < min_samples_per_cluster self \<or>
     fit_transform lib (map (\<lambda>t. prepare_text (template t)) (map snd tmpls)) = None)"
  then obtain p ps where ps: "tmpls = p # ps" by (cases tmpls) auto
  from a have "cluster_templates self lib tmpls = Inr (create_single_cluster (map snd tmpls))"
    by (auto simp: cluster_templates_def Let_def)
  also have "create_single_cluster (map snd tmpls) =
      [\<lparr>cluster_id = 0, templates = map snd tmpls,
        total_count = (\<Sum>t\<leftarrow>map snd tmpls. count t),
        keywords = map fst (most_common 10 (keyword_frequencies (map snd tmpls))),
        representative_sample = template (snd (hd tmpls))\<rparr>]"
    by (simp add: ps create_single_cluster_def extract_keywords_simple_frequencies)
  finally show "cluster_templates self lib tmpls =
      Inr [\<lparr>cluster_id = 0, templates = map snd tmpls,
            total_count = (\<Sum>t\<leftarrow>map snd tmpls. count t),
            keywords = map fst (most_common 10 (keyword_frequencies (map snd tmpls))),
            representative_sample = template (snd (hd tmpls))\<rparr>]" .
next
  show "length (most_common 10 (keyword_frequencies (map snd tmpls))) \<le> 10"
    by (rule length_most_common)
next
  fix w assume "w \<in> set (map fst (most_common 10 (keyword_frequencies (map snd tmpls))))"
  then have "w \<in> fst ` set (keyword_frequencies (map snd tmpls))"
    using set_most_common [of 10 "keyword_frequencies (map snd tmpls)"] by auto
  then obtain t where t: "t \<in> set (map snd tmpls)" "w \<in> set (keyword_tokens t)"
    unfolding keys_keyword_frequencies by blast
  from t(2) have "w \<notin> set LOG_STOP_WORDS" "2 < length w"
    by (simp_all add: keyword_tokens_filtered)
  with t show "w \<notin> set LOG_STOP_WORDS" "2 < length w" "\<exists>t\<in>set (map snd tmpls). w \<in> set (keyword_tokens t)"
    by blast+
qed

lemma lone_keywords:
  "map fst (most_common 10 (keyword_frequencies (map snd lone_template))) = [ustr ''single'', ustr ''error'']"
  by (simp add: lone_template_def keyword_frequencies_def most_common_def keyword_tokens_def
      LOG_STOP_WORDS_def first_seen_def text_eval regex_eval)


theorem degenerate_clustering_witness:
  "lone_template \<noteq> [] \<and>
   int (length lone_template) < min_samples_per_cluster demo_clusterer \<and>
   cluster_templates demo_clusterer demo_sklearn lone_template =
     Inr [\<lparr>cluster_id = 0, templates = map snd lone_template, total_count = 1,
           keywords = [ustr ''single'', ustr ''error''],
           representative_sample = ustr ''Single error''\<rparr>] \<and>
   demo_templates \<noteq> [] \<and>
   fit_transform featureless_sklearn
     (map (\<lambda>t. prepare_text (template t)) (map snd demo_templates)) = None \<and>
   (\<exists>c. cluster_templates demo_clusterer featureless_sklearn demo_templates = Inr [c] \<and>
        templates c = map snd demo_templates \<and> total_count c = 10)"
proof -
  have h1: "lone_template \<noteq> []" by (simp add: lone_template_def)
  have h2: "int (length lone_template) < min_samples_per_cluster demo_clusterer"
    by (simp add: lone_template_def demo_clusterer_def)
  have h3: "demo_templates \<noteq> []" by (simp add: demo_templates_def)
  have h4: "fit_transform featureless_sklearn
     (map (\<lambda>t. prepare_text (template t)) (map snd demo_templates)) = None"
    by (simp add: featureless_sklearn_def)
  from degenerate_clustering [of demo_clusterer demo_sklearn lone_template] h1 h2
  have "cluster_templates demo_clusterer demo_sklearn lone_template =
      Inr [\<lparr>cluster_id = 0, templates = map snd lone_template,
            total_count = (\<Sum>t\<leftarrow>map snd lone_template. count t),
            keywords = map fst (most_common 10 (keyword_frequencies (map snd lone_template))),
            representative_sample = template (snd (hd lone_template))\<rparr>]"
    by blast
  moreover have "(\<Sum>t\<leftarrow>map snd lone_template. count t) = 1"
    "template (snd (hd lone_template)) = ustr ''Single error''"
    by (simp_all add: lone_template_def)
  ultimately have r1: "cluster_templates demo_clusterer demo_sklearn lone_template =
     Inr [\<lparr>cluster_id = 0, templates = map snd lone_template, total_count = 1,
           keywords = [ustr ''single'', ustr ''error''],
           representative_sample = ustr ''Single error''\<rparr>]"
    by (simp only: lone_keywords)
  from degenerate_clustering [of demo_clusterer featureless_sklearn demo_templates] h3 h4
  have "cluster_templates demo_clusterer featureless_sklearn demo_templates =
      Inr [\<lparr>cluster_id = 0, templates = map snd demo_templates,
            total_count = (\<Sum>t\<leftarrow>map snd demo_templates. count t),
            keywords = map fst (most_common 10 (keyword_frequencies (map snd demo_templates))),
            representative_sample = template (snd (hd demo_templates))\<rparr>]"
    by blast
  moreover have "(\<Sum>t\<leftarrow>map snd demo_templates. count t) = 10"
    by (simp add: demo_templates_def)
  ultimately have r2: "\<exists>c. cluster_templates demo_clusterer featureless_sklearn demo_templates = Inr [c] \<and>
        templates c = map snd demo_templates \<and> total_count c = 10"
    by simp
  from h1 h2 r1 h3 h4 r2 show ?thesis by blast
qed

text \<open>With two templates and the analyzer's settings the cluster count is 1, whatever the
  vectorizer does, and the single-cluster path is taken.\<close>

lemma two_templates_single_cluster:
  "cluster_templates \<lparr>max_clusters = 10, min_samples_per_cluster = 2\<rparr> lib two_templates =
   Inr (create_single_cluster (map snd two_templates))"
  by (cases "fit_transform lib (map (\<lambda>t. prepare_text (template t)) (map snd two_templates))")
     (simp_all add: cluster_templates_def two_templates_def Let_def)

text \<open>
  C6. On \<open>two_templates\<close> the only cluster has the members "Database query failed"
  (count 1) and "Connection to <IP> failed" (count 3), and its representative is the first
  member, "Database query failed", not the member with the highest count: the
  single-cluster path takes \<^verbatim>\<open>templates[0]\<close>.
\<close>

theorem single_cluster_representative_is_first:
  "cluster_templates \<lparr>max_clusters = 10, min_samples_per_cluster = 2\<rparr> lib two_templates =
     Inr (create_single_cluster (map snd two_templates)) \<and>
   map (\<lambda>c. map (\<lambda>t. (template t, count t)) (templates c))
       (create_single_cluster (map snd two_templates)) =
     [[(ustr ''Database query failed'', 1), (ustr ''Connection to <IP> failed'', 3)]] \<and>
   map representative_sample (create_single_cluster (map snd two_templates)) =
     [ustr ''Database query failed'']"
  by (simp add: two_templates_single_cluster)
     (simp add: create_single_cluster_def two_templates_def)

section \<open>Plain ingestion at a chunk boundary\<close>

lemma utf8_items_ascii_run:
  "a < 128 \<Longrightarrow> utf8_items (replicate n a @ bs) = replicate n (Some a) @ utf8_items bs"
  by (induction n) simp_all

lemma split_nl_one_line: "10 \<notin> set s \<Longrightarrow> split_nl s = [s]"
  by (induction s) simp_all

lemma chunk1: "take CHUNK_SIZE split_file = replicate 65535 97 @ [195]"
  by (simp add: CHUNK_SIZE_def split_file_def)

lemma rest1: "drop CHUNK_SIZE split_file = [169]"
  by (simp add: CHUNK_SIZE_def split_file_def)

lemma items1: "utf8_items (replicate 65535 97 @ [195]) = replicate 65535 (Some 97) @ [None]"
  by (simp add: utf8_items_ascii_run)

lemma items2: "utf8_items [169] = [None]"
  by simp

lemma items_whole: "utf8_items split_file = replicate 65535 (Some 97) @ [Some 233]"
  by (simp add: split_file_def utf8_items_ascii_run is_cont_def)

lemma decode1: "decode_strict (replicate 65535 97 @ [195]) = None"
  "decode_replace (replicate 65535 97 @ [195]) = replicate 65535 97 @ [65533]"
  by (simp_all add: decode_strict_def decode_replace_def items1)

lemma decode2: "decode_strict [169] = None" "decode_replace [169] = [65533]"
  by (simp_all add: decode_strict_def decode_replace_def)

lemma loop_end: "read_plain_loop buffer [] = (if buffer \<noteq> [] then [buffer] else [])"
  by (subst read_plain_loop.simps) simp

lemma loop2: "10 \<notin> set buffer \<Longrightarrow> read_plain_loop buffer [169] = [buffer @ [65533]]"
  by (subst read_plain_loop.simps)
     (simp add: CHUNK_SIZE_def decode2 split_nl_one_line loop_end)

lemma loop1: "read_plain_loop [] split_file = [replicate 65535 97 @ [65533, 65533]]"
  by (subst read_plain_loop.simps)
     (simp add: chunk1 rest1 decode1 split_nl_one_line loop2 Let_def)

text \<open>
  C8. On \<open>split_file\<close> the plain reader yields one line that ends in two replacement
  characters, although the bytes are valid UTF-8: decoded as a whole they are 65535 letters
  and U+00E9. Each chunk is decoded by itself, and the chunk boundary falls inside the
  two-byte sequence.
\<close>

theorem chunk_boundary_splits_character:
  "read_plain_file split_file = [replicate 65535 97 @ [65533, 65533]] \<and>
   whole_stream_lines split_file = [replicate 65535 97 @ [233]] \<and>
   read_plain_file split_file \<noteq> whole_stream_lines split_file"
proof -
  have a: "read_plain_file split_file = [replicate 65535 97 @ [65533, 65533]]"
    by (simp add: read_plain_file_def loop1)
  have b: "whole_stream_lines split_file = [replicate 65535 97 @ [233]]"
    by (simp add: whole_stream_lines_def decode_replace_def items_whole split_nl_one_line Let_def)
  from a b show ?thesis by simp
qed

section \<open>The multiline example\<close>

text \<open>The entries that the parser makes of the five lines, whatever the JSON library does
  (no line starts with a brace).\<close>

lemma five_lines_parsed:
  "parse_lines lib five_lines =
     [\<lparr>raw_line = ustr ''2024-01-15 10:30:45 ERROR Exception occurred'', line_number = 1,
       level = ERROR, message = ustr ''Exception occurred'', timestamp = None, logger = None,
       exception = Some (ustr ''2024-01-15 10:30:45 ERROR Exception occurred''),
       is_multiline = False\<rparr>,
      \<lparr>raw_line = ustr ''Traceback (most recent call last):'' @ [10] @
                   ustr ''  File '' @ [34] @ ustr ''app.py'' @ [34] @ ustr '', line 42'',
       line_number = 2, level = ERROR, message = ustr ''Traceback (most recent call last):'',
       timestamp = None, logger = None,
       exception = Some (ustr ''Traceback (most recent call last):'' @ [10] @
                   ustr ''  File '' @ [34] @ ustr ''app.py'' @ [34] @ ustr '', line 42''),
       is_multiline = True\<rparr>,
      \<lparr>raw_line = ustr ''ValueError: bad input'', line_number = 4, level = ERROR,
       message = ustr ''ValueError: bad input'', timestamp = None, logger = None,
       exception = Some (ustr ''ValueError: bad input''), is_multiline = False\<rparr>,
      \<lparr>raw_line = ustr ''2024-01-15 10:30:46 INFO Normal log'', line_number = 5, level = INFO,
       message = ustr ''Normal log'', timestamp = None, logger = None, exception = None,
       is_multiline = False\<rparr>]"
  by (simp add: five_lines_def parse_eval text_eval regex_eval Let_def)

text \<open>
  C2. On the five lines of the multiline example \<open>parse_lines\<close> yields four entries, not
  two. They start at lines 1, 2, 4 and 5. The first is the ERROR line alone: it is not
  multiline and its raw text does not contain "Traceback". The traceback header starts an
  entry of its own, which absorbs the indented \<^verbatim>\<open>File\<close> line; \<^verbatim>\<open>ValueError: bad input\<close>
  starts the third.
\<close>

theorem multiline_example_yields_four_entries:
  "length (parse_lines lib five_lines) = 4 \<and>
   map line_number (parse_lines lib five_lines) = [1, 2, 4, 5] \<and>
   map is_multiline (parse_lines lib five_lines) = [False, True, False, False] \<and>
   map raw_line (parse_lines lib five_lines) =
     [ustr ''2024-01-15 10:30:45 ERROR Exception occurred'',
      ustr ''Traceback (most recent call last):'' @ [10] @
        ustr ''  File '' @ [34] @ ustr ''app.py'' @ [34] @ ustr '', line 42'',
      ustr ''ValueError: bad input'',
      ustr ''2024-01-15 10:30:46 INFO Normal log''] \<and>
   contains (raw_line (hd (parse_lines lib five_lines))) (ustr ''Traceback'') = False"
  by (simp add: five_lines_parsed) (simp add: ustr_def)

section \<open>The total of the analysis result\<close>

text \<open>The stages of the pipeline on \<open>small_file\<close>.\<close>

lemma small_file_lines:
  "read_plain_file small_file = [ustr ''ERROR boom'', ustr ''    at x'', [], ustr ''INFO ok'']"
  unfolding read_plain_file_def
  by (subst read_plain_loop.simps)
     (simp add: small_file_def CHUNK_SIZE_def decode_strict_def is_cont_def Let_def loop_end ustr_def)

lemma small_file_parsed:
  "parse_lines lib [ustr ''ERROR boom'', ustr ''    at x'', [], ustr ''INFO ok''] =
     [\<lparr>raw_line = ustr ''ERROR boom'' @ [10] @ ustr ''    at x'', line_number = 1, level = ERROR,
       message = ustr ''boom'', timestamp = None, logger = None,
       exception = Some (ustr ''ERROR boom'' @ [10] @ ustr ''    at x''), is_multiline = True\<rparr>,
      \<lparr>raw_line = ustr ''INFO ok'', line_number = 4, level = INFO, message = ustr ''ok'',
       timestamp = None, logger = None, exception = None, is_multiline = False\<rparr>]"
  by (simp add: parse_eval text_eval regex_eval Let_def)

lemma small_file_processed:
  "snd (process_entries min_level
     [\<lparr>raw_line = ustr ''ERROR boom'' @ [10] @ ustr ''    at x'', line_number = 1, level = ERROR,
       message = ustr ''boom'', timestamp = None, logger = None,
       exception = Some (ustr ''ERROR boom'' @ [10] @ ustr ''    at x''), is_multiline = True\<rparr>,
      \<lparr>raw_line = ustr ''INFO ok'', line_number = 4, level = INFO, message = ustr ''ok'',
       timestamp = None, logger = None, exception = None, is_multiline = False\<rparr>]) =
   [(ustr ''boom'', \<lparr>template = ustr ''boom'', original_messages = [ustr ''boom''], count = 1,
                     first_occurrence_line = 1\<rparr>)]"
  by (simp add: normalize_eval has_exception_def text_eval regex_eval Let_def)


text \<open>Whenever \<open>analyze\<close> returns, its total is the number of parsed entries.\<close>

lemma analyze_total_lines:
  "analyze max_cl min_level libs file filename = Inr r \<Longrightarrow>
   read_log_file (gzip_of libs) file filename = Inr lines \<Longrightarrow>
   total_lines r = int (length (parse_lines (json_of libs) lines))"
  by (auto simp: analyze_def Let_def build_analysis_result_def split: sum.splits prod.splits)

text \<open>
  C10. Ingesting \<open>small_file\<close> produces four text lines, and \<open>analyze\<close> returns a result
  whose \<open>total_lines\<close> is 2: the number of parsed entries. The blank line is skipped and
  the indented line is merged into the entry before it, so neither is counted.
\<close>

theorem total_lines_counts_entries:
  "read_log_file (gzip_of libs) small_file (ustr ''app.log'') =
     Inr [ustr ''ERROR boom'', ustr ''    at x'', [], ustr ''INFO ok''] \<and>
   (\<exists>r. analyze 10 min_level libs small_file (ustr ''app.log'') = Inr r \<and> total_lines r = 2)"
proof -
  let ?lines = "[ustr ''ERROR boom'', ustr ''    at x'', [], ustr ''INFO ok'']"
  have rd: "read_log_file (gzip_of libs) small_file (ustr ''app.log'') = Inr ?lines"
    by (simp add: read_log_file_def small_file_lines) (simp add: endswith_def ustr_def)
  let ?tm = "snd (process_entries min_level (parse_lines (json_of libs) ?lines))"
  have "?tm = [(ustr ''boom'', \<lparr>template = ustr ''boom'', original_messages = [ustr ''boom''],
                                 count = 1, first_occurrence_line = 1\<rparr>)]"
    by (simp only: small_file_parsed small_file_processed)
  then have ct: "cluster_templates \<lparr>max_clusters = 10, min_samples_per_cluster = 2\<rparr> (sklearn_of libs) ?tm =
      Inr (create_single_cluster (map snd ?tm))"
    by (simp add: cluster_templates_def)
  have "\<exists>r. analyze 10 min_level libs small_file (ustr ''app.log'') = Inr r"
    by (simp add: analyze_def rd Let_def case_prod_beta ct)
  then obtain r where r: "analyze 10 min_level libs small_file (ustr ''app.log'') = Inr r" ..
  from analyze_total_lines [OF r rd] have "total_lines r = 2"
    by (simp add: small_file_parsed)
  with rd r show ?thesis by blast
qed

section \<open>Normalizing twice\<close>

lemma lstrip_dropWhile: "lstrip s = dropWhile is_space s"
  by (induction s) simp_all

lemma step_if_Nil: "step_if P (mt, ctx, []) = []"
  by (simp add: step_if_def)

lemma step_if_Cons: "step_if P (mt, ctx, c # cs) = (if P c then [(c # mt, ctx, cs)] else [])"
  by (simp add: step_if_def)

text \<open>A greedy repetition of a character class, begun with at least as much fuel as there
  is text: it matches iff the run of characters of the class is long enough, and its first
  match is the whole run.\<close>

lemma rep_class_empty:
  "length r \<le> length fuel \<Longrightarrow>
   (rep (step_if P) fuel lo None (mt, ctx, r) = []) = (length (takeWhile P r) < lo)"
proof (induction fuel arbitrary: lo mt r)
  case Nil
  then show ?case by simp
next
  case (Cons x fuel)
  show ?case
  proof (cases r)
    case Nil
    then show ?thesis by (simp add: step_if_Nil)
  next
    case (Cons c cs)
    with Cons.prems have "length cs \<le> length fuel" by simp
    from Cons.IH [OF this] Cons show ?thesis
      by (auto simp: step_if_Cons)
  qed
qed

lemma rep_class_hd:
  "length r \<le> length fuel \<Longrightarrow> lo \<le> length (takeWhile P r) \<Longrightarrow>
   hd (rep (step_if P) fuel lo None (mt, ctx, r)) = (rev (takeWhile P r) @ mt, ctx, dropWhile P r)"
proof (induction fuel arbitrary: lo mt r)
  case Nil
  then show ?case by simp
next
  case (Cons x fuel)
  show ?case
  proof (cases r)
    case Nil
    with Cons.prems show ?thesis by (simp add: step_if_Nil)
  next
    case r: (Cons c cs)
    with Cons.prems have len: "length cs \<le> length fuel" by simp
    show ?thesis
    proof (cases "P c")
      case False
      with r Cons.prems show ?thesis by (simp add: step_if_Cons)
    next
      case True
      with r Cons.prems have lo: "lo - 1 \<le> length (takeWhile P cs)" by simp
      from rep_class_empty [OF len, of P "lo - 1" "c # mt" ctx] lo
      have ne: "rep (step_if P) fuel (lo - 1) None (c # mt, ctx, cs) \<noteq> []" by simp
      from Cons.IH [OF len lo, of "c # mt"] ne True r show ?thesis
        by (simp add: step_if_Cons hd_append)
    qed
  qed
qed

lemma first_match_spaces:
  "first_match (many1 spc) ctx rest =
     (if takeWhile is_space rest = [] then None
      else Some (takeWhile is_space rest, dropWhile is_space rest))"
proof -
  let ?P = "\<lambda>c. list_ex (\<lambda>k. in_class k c) [CSpace]"
  have P: "?P = is_space" by (simp add: fun_eq_iff)
  have m: "m (many1 spc) ([], ctx, rest) = rep (step_if is_space) rest 1 None ([], ctx, rest)"
    unfolding many1_def spc_def m.simps P
    by (simp add: fun_eq_iff)
  show ?thesis
  proof (cases "takeWhile is_space rest = []")
    case True
    then have "length (takeWhile is_space rest) < 1" by simp
    with rep_class_empty [of rest rest is_space 1 "[]" ctx]
    have "rep (step_if is_space) rest 1 None ([], ctx, rest) = []" by simp
    with True m show ?thesis by (simp add: first_match_def)
  next
    case False
    then have l: "1 \<le> length (takeWhile is_space rest)"
      by (cases "takeWhile is_space rest") simp_all
    have ne: "rep (step_if is_space) rest 1 None ([], ctx, rest) \<noteq> []"
      using False by (simp add: rep_class_empty)
    from rep_class_hd [of rest rest 1 is_space "[]" ctx] l
    have "hd (rep (step_if is_space) rest 1 None ([], ctx, rest)) =
          (rev (takeWhile is_space rest), ctx, dropWhile is_space rest)" by simp
    with ne False m show ?thesis
      by (cases "rep (step_if is_space) rest 1 None ([], ctx, rest)") (simp_all add: first_match_def)
  qed
qed

text \<open>Substituting a space for \<^verbatim>\<open>\s+\<close> is \<open>squeeze\<close>.\<close>

lemma sub_from_skip:
  "k \<le> length cs \<Longrightarrow> sub_from f ctx cs k = sub_from f (rev (take k cs) @ ctx) (drop k cs) 0"
proof (induction cs arbitrary: k ctx)
  case Nil
  then show ?case by simp
next
  case (Cons c cs)
  show ?case
  proof (cases k)
    case 0
    then show ?thesis by simp
  next
    case (Suc j)
    with Cons.prems have "j \<le> length cs" by simp
    from Cons.IH [OF this, of "c # ctx"] Suc show ?thesis by simp
  qed
qed

lemma sub_from_spaces:
  "sub_from (\<lambda>ctx rest. map_option (\<lambda>x. (fst x, [32])) (first_match (many1 spc) ctx rest)) ctx s 0
   = squeeze s"
proof (induction s arbitrary: ctx rule: squeeze.induct)
  case 1
  show ?case by simp
next
  case (2 c cs)
  let ?f = "\<lambda>ctx rest. map_option (\<lambda>x. (fst x, [32])) (first_match (many1 spc) ctx rest)"
  show ?case
  proof (cases "is_space c")
    case False
    with "2.IH"(2) [of "c # ctx"] show ?thesis
      by (simp add: first_match_spaces)
  next
    case True
    let ?k = "length (takeWhile is_space cs)"
    have "sub_from ?f ctx (c # cs) 0 = [32] @ sub_from ?f (c # ctx) cs ?k"
      using True by (simp add: first_match_spaces)
    also have "sub_from ?f (c # ctx) cs ?k =
               sub_from ?f (rev (take ?k cs) @ c # ctx) (drop ?k cs) 0"
      by (rule sub_from_skip) (simp add: length_takeWhile_le)
    also have "drop ?k cs = dropWhile is_space cs"
      by (simp add: dropWhile_eq_drop)
    also have "sub_from ?f (rev (take ?k cs) @ c # ctx) (dropWhile is_space cs) 0 =
               squeeze (dropWhile is_space cs)"
      using True by (rule "2.IH"(1))
    finally show ?thesis using True by simp
  qed
qed

lemma re_sub_spaces: "re_sub (many1 spc) (ustr '' '') s = squeeze s"
proof -
  have "ustr '' '' = [32]" by (simp add: ustr_def)
  then show ?thesis by (simp add: re_sub_def sub_from_spaces)
qed


text \<open>The whitespace step yields texts of the shape \<open>ws_normal\<close> and leaves them as they
  are.\<close>

lemma squeeze_ws_normal: "ws_normal s \<Longrightarrow> squeeze s = s"
proof (induction s rule: squeeze.induct)
  case 1
  show ?case by simp
next
  case (2 c cs)
  show ?case
  proof (cases "is_space c")
    case False
    with 2 show ?thesis by simp
  next
    case True
    with "2.prems" have c: "c = 32" and nxt: "cs = [] \<or> is_space (hd cs) = False" and rest: "ws_normal cs"
      by simp_all
    from nxt have dw: "dropWhile is_space cs = cs" by (cases cs) auto
    from "2.IH"(1) [OF True] rest dw have "squeeze cs = cs" by simp
    with True c dw show ?thesis by simp
  qed
qed

lemma squeeze_Nil_iff: "(squeeze s = []) = (s = [])"
  by (cases s) simp_all

lemma hd_squeeze: "s \<noteq> [] \<Longrightarrow> is_space (hd s) = False \<Longrightarrow> hd (squeeze s) = hd s"
  by (cases s) simp_all

lemma ws_normal_squeeze: "ws_normal (squeeze s)"
proof (induction s rule: squeeze.induct)
  case 1
  show ?case by simp
next
  case (2 c cs)
  show ?case
  proof (cases "is_space c")
    case False
    with 2 show ?thesis by simp
  next
    case True
    let ?u = "dropWhile is_space cs"
    have "squeeze ?u = [] \<or> is_space (hd (squeeze ?u)) = False"
    proof (cases "?u = []")
      case True
      show ?thesis by (simp only: True squeeze.simps simp_thms)
    next
      case False
      then have "is_space (hd ?u) = False" by (simp add: hd_dropWhile)
      with False show ?thesis by (simp add: hd_squeeze)
    qed
    with True "2.IH"(1) [OF True] show ?thesis by simp
  qed
qed

lemma ws_normal_append: "ws_normal (a @ b) \<Longrightarrow> ws_normal a \<and> ws_normal b"
proof (induction a)
  case Nil
  then show ?case by simp
next
  case (Cons c a)
  then show ?case by (cases a) (auto split: if_splits)
qed

lemma ws_normal_strip: "ws_normal s \<Longrightarrow> ws_normal (strip s)"
proof -
  assume s: "ws_normal s"
  let ?Y = "dropWhile is_space s"
  have "s = takeWhile is_space s @ ?Y" by simp
  with s have Y: "ws_normal ?Y" by (metis ws_normal_append)
  have "rev ?Y = takeWhile is_space (rev ?Y) @ dropWhile is_space (rev ?Y)" by simp
  then have "rev (rev ?Y) = rev (takeWhile is_space (rev ?Y) @ dropWhile is_space (rev ?Y))"
    by (rule arg_cong)
  then have "?Y = rev (dropWhile is_space (rev ?Y)) @ rev (takeWhile is_space (rev ?Y))"
    by (simp only: rev_rev_ident rev_append)
  with Y have "ws_normal (rev (dropWhile is_space (rev ?Y)))" by (metis ws_normal_append)
  then show ?thesis by (simp add: strip_def lstrip_dropWhile)
qed

lemma strip_strip: "strip (strip s) = strip s"
proof -
  let ?Y = "dropWhile is_space s"
  let ?T = "rev (dropWhile is_space (rev ?Y))"
  have T: "strip s = ?T" by (simp add: strip_def lstrip_dropWhile)
  have pre: "?Y = ?T @ rev (takeWhile is_space (rev ?Y))"
  proof -
    have "rev ?Y = takeWhile is_space (rev ?Y) @ dropWhile is_space (rev ?Y)" by simp
    then have "rev (rev ?Y) = rev (takeWhile is_space (rev ?Y) @ dropWhile is_space (rev ?Y))"
      by (rule arg_cong)
    then show ?thesis by (simp only: rev_rev_ident rev_append)
  qed
  have dT: "dropWhile is_space ?T = ?T"
  proof (cases "?T = []")
    case True
    show ?thesis by (simp only: True dropWhile.simps)
  next
    case False
    with pre have "hd ?T = hd ?Y" "?Y \<noteq> []" by (metis hd_append2, metis append_is_Nil_conv)
    then have "is_space (hd ?T) = False" by (simp add: hd_dropWhile)
    with False show ?thesis by (cases ?T) auto
  qed
  have "strip ?T = rev (dropWhile is_space (rev (dropWhile is_space ?T)))"
    by (simp add: strip_def lstrip_dropWhile)
  also have "\<dots> = rev (dropWhile is_space (rev ?T))" by (simp only: dT)
  also have "\<dots> = ?T" by simp
  finally show ?thesis by (simp only: T)
qed

lemma collapse_whitespace_squeeze: "collapse_whitespace s = strip (squeeze s)"
  by (simp add: collapse_whitespace_def re_sub_spaces)

lemma collapse_whitespace_idem: "collapse_whitespace (collapse_whitespace s) = collapse_whitespace s"
proof -
  have "ws_normal (strip (squeeze s))" by (simp add: ws_normal_strip ws_normal_squeeze)
  then have "squeeze (strip (squeeze s)) = strip (squeeze s)" by (rule squeeze_ws_normal)
  then show ?thesis by (simp add: collapse_whitespace_squeeze strip_strip)
qed

text \<open>
  C1, as amended. \<open>normalize_message\<close> is a function of its argument, and its result is
  whitespace-normal: applying the last step of the normalization again (collapse every run
  of whitespace to one space, strip) changes nothing, for every message.
\<close>

theorem normalized_is_whitespace_normal:
  "collapse_whitespace (normalize_message msg) = normalize_message msg"
  by (simp add: normalize_message_def Let_def collapse_whitespace_idem)

text \<open>Normalizing twice is not normalizing once: collapsing the two spaces of
  \<^verbatim>\<open>port  80\<close> makes the number follow \<^verbatim>\<open>port\<close> and one whitespace character, which only the
  second pass sees.\<close>

lemma normalize_port_two_spaces: "normalize_message (ustr ''port  80'') = ustr ''port 80''"
  by (simp add: normalize_eval text_eval regex_eval Let_def)

lemma normalize_port_one_space: "normalize_message (ustr ''port 80'') = ustr ''port <PORT>''"
  by (simp add: normalize_eval text_eval regex_eval Let_def)

text \<open>
  C1, as stated, fails: normalizing the result of normalizing \<^verbatim>\<open>port  80\<close> gives
  \<^verbatim>\<open>port <PORT>\<close>, not \<^verbatim>\<open>port 80\<close>.
\<close>

theorem normalize_twice_differs:
  "normalize_message (normalize_message (ustr ''port  80'')) \<noteq> normalize_message (ustr ''port  80'')"
  by (simp add: normalize_port_two_spaces normalize_port_one_space) (simp add: ustr_def)

end
